theory Spec2Isabelle
  imports Main
begin

section \<open>Signals, exceptions and the outcomes of external calls\<close>

text \<open>
  The worker of \<^verbatim>\<open>deep.py\<close> has three signals: \<^verbatim>\<open>progress(int)\<close>,
  \<^verbatim>\<open>finished(str, str)\<close> and \<^verbatim>\<open>error(str)\<close>. An emission is an event; the
  events of a job are kept in order. There is no signal for a cancelled job.
\<close>

datatype event = Progress int | Finished string string | Error string

text \<open>
  Python exceptions that can leave \<^verbatim>\<open>remux\<close>, \<^verbatim>\<open>__init__\<close> or \<^verbatim>\<open>run\<close>.
  \<open>CalledProcessError\<close> carries the return code and the captured stdout and stderr
  (\<open>None\<close> when the call did not capture them); \<open>SystemExit\<close> carries the exit
  status and is a \<^verbatim>\<open>BaseException\<close> that is not an \<^verbatim>\<open>Exception\<close>; the others
  carry \<^verbatim>\<open>str(e)\<close>.
\<close>

datatype exn =
    CalledProcessError int "string option" "string option"
  | FileNotFoundError string
  | AttributeError string
  | OtherException string
  | SystemExit int

text \<open>
  What \<^verbatim>\<open>subprocess.run\<close> can do: the process exits with a return code, having printed
  to stdout and stderr; the executable is not found; or any other fault.
\<close>

datatype proc = Exit int string string | ExeNotFound string | ProcFault string

datatype audio_clip = AudioClip (has_write_audiofile: bool)

datatype clip = VideoClip (audio: "audio_clip option")

datatype opened = OpenRaises string | OpenNone | Opened clip

datatype tensor = Tensor (samples: "int list")

datatype enhanced = EnhanceRaises string | EnhanceReturns "tensor option"

text \<open>
  What \<^verbatim>\<open>init_df\<close> of DeepFilterNet can do: return the model, raise an exception, or
  end the interpreter with \<^verbatim>\<open>exit(1)\<close>, as it does when it finds no checkpoint in
  the model directory.
\<close>

datatype model_init = InitOk | InitRaises string | InitExits int

text \<open>The external calls of a job, recorded in the order they are made.\<close>

datatype action =
    Mkdtemp
  | Subprocess_remux "string list"
  | OpenClip string
  | WriteAudiofile string
  | CloseClip
  | InitDf string
  | LoadAudio string
  | Enhance "int option"
  | SaveAudio string
  | Subprocess_run "string list"
  | Listdir string
  | Remove string
  | Rmdir string

text \<open>
  Everything outside the program that decides a job: the result of each external call,
  at the place it is made. Every call site is reached at most once in a job, so one
  outcome for each is fully general. \<open>error_signal\<close> is the value read from
  \<^verbatim>\<open>self.error.signal\<close> (lines 143 and 243; at most one of the two reads happens in
  a run). \<open>stop_before env k\<close> says that the interface thread has called \<^verbatim>\<open>stop()\<close>
  since the previous poll of \<^verbatim>\<open>_is_running\<close> and before poll \<open>k\<close> (polls 1 to 4 are
  lines 148, 161, 168 and 188; 0 stands for the time between construction and the
  start of \<^verbatim>\<open>run\<close>). \<open>init_df_logs\<close> says that \<^verbatim>\<open>init_df\<close>, which line 155 calls
  with its default \<^verbatim>\<open>log_file\<close>, has written \<^verbatim>\<open>enhance.log\<close> into the model
  directory.
\<close>

record env =
  DEEPFILTER_AVAILABLE :: bool
  error_signal :: string
  path_name :: "string \<Rightarrow> string"
  base_path :: string
  which_ffmpeg :: "string option"
  get_ffmpeg_exe :: "string + string"
  sanitize_proc :: proc
  sanitize_creates :: bool
  VideoFileClip_result :: opened
  write_audiofile_result :: "string option"
  write_audiofile_creates :: bool
  close_result :: "string option"
  close_finally_raises :: bool
  init_df_result :: model_init
  init_df_logs :: bool
  load_audio_result :: "string option"
  enhance_result :: "int option \<Rightarrow> enhanced"
  save_audio_result :: "tensor \<Rightarrow> string option"
  save_audio_creates :: bool
  remux_back_proc :: proc
  remux_back_writes :: bool
  listdir_fails :: bool
  remove_fails :: "string \<Rightarrow> string \<Rightarrow> bool"
  rmdir_fails :: bool
  stop_before :: "nat \<Rightarrow> bool"

section \<open>The world and the worker\<close>

text \<open>
  \<open>tmp\<close> maps each directory made by \<^verbatim>\<open>tempfile.mkdtemp\<close> that still exists to the
  names of the files in it; \<open>names\<close> is the supply of candidate names of
  \<^verbatim>\<open>mkdtemp\<close>; \<open>outside\<close> lists the paths written outside those directories.
  \<open>handles\<close> counts the media handles (opened clips) that are held and not yet
  released. \<open>events\<close> and \<open>calls\<close> are the signals emitted and the external calls
  made by the current job.
\<close>

record world =
  tmp :: "string \<rightharpoonup> string list"
  names :: "string list"
  outside :: "string list"
  handles :: nat
  events :: "event list"
  calls :: "action list"

text \<open>
  The worker object (\<^verbatim>\<open>self\<close>) with the locals of \<^verbatim>\<open>run\<close> that outlive a stage.
\<close>

record state = world +
  input_video :: string
  output_video :: string
  atten_lim_db :: "int option"
  is_running :: bool
  video_clip :: "clip option"
  temp_dir :: "string option"
  enhanced_audio :: "tensor option"

definition emit :: "event \<Rightarrow> state \<Rightarrow> state" where
  "emit e s = s\<lparr>events := events s @ [e]\<rparr>"

definition call :: "action \<Rightarrow> state \<Rightarrow> state" where
  "call a s = s\<lparr>calls := calls s @ [a]\<rparr>"

definition nl :: string where
  "nl = [CHR 0x0A]"

text \<open>\<^verbatim>\<open>os.path.join(a, b)\<close> on POSIX, for two components.\<close>

definition os_path_join :: "string \<Rightarrow> string \<Rightarrow> string" where
  "os_path_join a b =
     (if b \<noteq> [] \<and> hd b = CHR ''/'' then b
      else if a = [] \<or> last a = CHR ''/'' then a @ b
      else a @ ''/'' @ b)"

text \<open>
  \<^verbatim>\<open>tempfile.mkdtemp\<close>: the first candidate name that does not exist yet becomes a new,
  empty directory; with no usable name left the call raises.
\<close>

fun mkdtemp :: "string list \<Rightarrow> (string \<rightharpoonup> string list) \<Rightarrow> (string \<times> string list) option" where
  "mkdtemp [] fs = None"
| "mkdtemp (n # ns) fs = (if fs n = None then Some (n, ns) else mkdtemp ns fs)"

definition create_file :: "string \<Rightarrow> string \<Rightarrow> (string \<rightharpoonup> string list) \<Rightarrow> (string \<rightharpoonup> string list)" where
  "create_file d f fs =
     (case fs d of None \<Rightarrow> fs | Some l \<Rightarrow> fs(d \<mapsto> List.insert f l))"

definition file_exists :: "string \<Rightarrow> string \<Rightarrow> (string \<rightharpoonup> string list) \<Rightarrow> bool" where
  "file_exists d f fs = (case fs d of None \<Rightarrow> False | Some l \<Rightarrow> f \<in> set l)"

section \<open>The container sanitizer: \<^verbatim>\<open>remux\<close> (lines 43 to 62)\<close>

definition remux_cmd :: "string \<Rightarrow> string \<Rightarrow> string \<Rightarrow> string list" where
  "remux_cmd ffmpeg source_path out_path =
     [ffmpeg, ''-y'', ''-ignore_editlist'', ''1'', ''-i'', source_path,
      ''-map'', ''0:v'', ''-map'', ''0:a?'', ''-c'', ''copy'',
      ''-movflags'', ''+faststart'', out_path]"

text \<open>
  \<^verbatim>\<open>subprocess.run(cmd, check=True)\<close> without \<^verbatim>\<open>capture_output\<close>: a non-zero exit
  raises \<open>CalledProcessError\<close> whose stdout and stderr are \<open>None\<close>. Nothing in
  \<^verbatim>\<open>remux\<close> catches an exception, and nothing removes the directory it makes.
\<close>

definition remux :: "env \<Rightarrow> string \<Rightarrow> world \<Rightarrow> (exn + string) \<times> world" where
  "remux env source_path w =
     (let w1 = w\<lparr>calls := calls w @ [Mkdtemp]\<rparr> in
      case mkdtemp (names w1) (tmp w1) of
        None \<Rightarrow> (Inl (OtherException ''No usable temporary directory name found''), w1)
      | Some (d, rest) \<Rightarrow>
          (let w2 = w1\<lparr>tmp := (tmp w1)(d \<mapsto> []), names := rest\<rparr>;
               name = ''remux_'' @ path_name env source_path;
               out_path = os_path_join d name;
               found = (case which_ffmpeg env of
                          None \<Rightarrow> get_ffmpeg_exe env
                        | Some p \<Rightarrow> if p \<noteq> [] then Inr p else get_ffmpeg_exe env)
           in case found of
                Inl m \<Rightarrow> (Inl (OtherException m), w2)
              | Inr ffmpeg \<Rightarrow>
                  (let w3 = w2\<lparr>calls := calls w2 @ [Subprocess_remux (remux_cmd ffmpeg source_path out_path)]\<rparr>
                   in case sanitize_proc env of
                        ExeNotFound m \<Rightarrow> (Inl (FileNotFoundError m), w3)
                      | ProcFault m \<Rightarrow> (Inl (OtherException m), w3)
                      | Exit rc out err \<Rightarrow>
                          (let w4 = (if sanitize_creates env
                                     then w3\<lparr>tmp := create_file d name (tmp w3)\<rparr> else w3)
                           in if rc \<noteq> 0 then (Inl (CalledProcessError rc None None), w4)
                              else (Inr out_path, w4)))))"

section \<open>The worker: \<^verbatim>\<open>DenoiseWorker\<close>\<close>

text \<open>
  \<^verbatim>\<open>__init__\<close> (lines 71 to 78) calls \<^verbatim>\<open>remux\<close> outside any \<^verbatim>\<open>try\<close>: an
  exception of \<^verbatim>\<open>remux\<close> leaves the constructor, and no worker exists.
\<close>

definition DenoiseWorker_init ::
  "env \<Rightarrow> string \<Rightarrow> string \<Rightarrow> int option \<Rightarrow> world \<Rightarrow> (exn \<times> world) + state" where
  "DenoiseWorker_init env input output atten w =
     (case remux env input w of
        (Inl e, w') \<Rightarrow> Inl (e, w')
      | (Inr p, w') \<Rightarrow>
          Inr \<lparr>tmp = tmp w', names = names w', outside = outside w',
               handles = handles w', events = events w', calls = calls w',
               input_video = p, output_video = output, atten_lim_db = atten,
               is_running = True, video_clip = None,
               temp_dir = None, enhanced_audio = None\<rparr>)"

definition stop :: "state \<Rightarrow> state" where
  "stop s = s\<lparr>is_running := False\<rparr>"

text \<open>
  How a part of \<^verbatim>\<open>run\<close>'s \<^verbatim>\<open>try\<close> block ends: control goes on to the next
  statement, the method executes \<^verbatim>\<open>return\<close>, an \<^verbatim>\<open>Exception\<close> (with its
  \<^verbatim>\<open>str\<close>) travels to the outermost handler of line 238, or a \<^verbatim>\<open>BaseException\<close>
  that is not an \<^verbatim>\<open>Exception\<close> travels past that handler.
\<close>

datatype flow = Next state | Return state | Raise string state | Escape exn state

fun chain :: "(state \<Rightarrow> flow) list \<Rightarrow> state \<Rightarrow> flow" where
  "chain [] s = Next s"
| "chain (f # fs) s =
     (case f s of
        Next s' \<Rightarrow> chain fs s'
      | Return s' \<Rightarrow> Return s'
      | Raise m s' \<Rightarrow> Raise m s'
      | Escape e s' \<Rightarrow> Escape e s')"

subsection \<open>The messages of the \<^verbatim>\<open>error\<close> signal\<close>

definition msg_deps :: string where
  "msg_deps = ''Core dependencies (deepfilternet, moviepy, imageio_ffmpeg) not found.''"

definition msg_open_failed :: "string \<Rightarrow> string" where
  "msg_open_failed m = ''Failed to open input video:'' @ nl @ m"

definition msg_no_audio :: string where
  "msg_no_audio = ''Input video has no audio track.''"

definition msg_internal :: string where
  "msg_internal = ''Internal error during audio processing (MoviePy).''"

definition msg_extract_failed :: "string \<Rightarrow> string" where
  "msg_extract_failed m = ''Failed to extract audio:'' @ nl @ m"

definition msg_no_output :: string where
  "msg_no_output = ''Audio extraction failed (no output file).''"

definition msg_no_data :: string where
  "msg_no_data = ''Denoising produced no audio data.''"

definition msg_save_failed :: "string \<Rightarrow> string" where
  "msg_save_failed m = ''Failed to save denoised audio:'' @ nl @ m"

definition msg_ffmpeg_not_found :: string where
  "msg_ffmpeg_not_found = ''FFmpeg executable not found.''"

definition msg_ffmpeg_error :: "string \<Rightarrow> string" where
  "msg_ffmpeg_error m = ''FFmpeg error:'' @ nl @ m"

definition msg_ffmpeg_unexpected :: "string \<Rightarrow> string" where
  "msg_ffmpeg_unexpected m = ''Unexpected error during FFmpeg processing: '' @ m"

definition msg_unexpected :: "string \<Rightarrow> string" where
  "msg_unexpected m = ''An unexpected error occurred:'' @ nl @ m"

definition msg_success :: "string \<Rightarrow> string" where
  "msg_success out = ''Successfully denoised and saved to:'' @ nl @ out"

subsection \<open>The stages of \<^verbatim>\<open>run\<close>\<close>

definition original_audio_name :: string where
  "original_audio_name = ''temp_original_audio.wav''"

definition enhanced_audio_name :: string where
  "enhanced_audio_name = ''temp_enhanced_audio.wav''"

text \<open>Lines 87 to 91: the temp directory of the run, then the first progress value.\<close>

definition acquire :: "env \<Rightarrow> state \<Rightarrow> flow" where
  "acquire env s =
     (let s1 = call Mkdtemp s in
      case mkdtemp (names s1) (tmp s1) of
        None \<Rightarrow> Raise ''No usable temporary directory name found'' s1
      | Some (d, rest) \<Rightarrow>
          Next (emit (Progress 5)
                  (s1\<lparr>tmp := (tmp s1)(d \<mapsto> []), names := rest, temp_dir := Some d\<rparr>)))"

text \<open>Lines 94 to 105: open the clip; a failure is reported and \<^verbatim>\<open>run\<close> returns.\<close>

definition open_clip :: "env \<Rightarrow> state \<Rightarrow> flow" where
  "open_clip env s =
     (let s1 = call (OpenClip (input_video s)) (s\<lparr>video_clip := None\<rparr>) in
      case VideoFileClip_result env of
        OpenRaises m \<Rightarrow> Return (emit (Error (msg_open_failed m)) s1)
      | OpenNone \<Rightarrow> Return (emit (Error (msg_open_failed ''VideoFileClip returned None.'')) s1)
      | Opened c \<Rightarrow> Next (s1\<lparr>video_clip := Some c, handles := Suc (handles s1)\<rparr>))"

text \<open>
  Lines 109 to 132. With no audio track, or an audio object without
  \<^verbatim>\<open>write_audiofile\<close>, the error is emitted and control goes on (no \<^verbatim>\<open>return\<close>).
\<close>

definition extract_audio :: "env \<Rightarrow> state \<Rightarrow> flow" where
  "extract_audio env s =
     (case (video_clip s, temp_dir s) of
        (Some c, Some d) \<Rightarrow>
          (case audio c of
             None \<Rightarrow> Next (emit (Error msg_no_audio) s)
           | Some a \<Rightarrow>
               if \<not> has_write_audiofile a then Next (emit (Error msg_internal) s)
               else
                 (let s1 = call (WriteAudiofile (os_path_join d original_audio_name)) s;
                      s2 = (if write_audiofile_creates env
                            then s1\<lparr>tmp := create_file d original_audio_name (tmp s1)\<rparr> else s1)
                  in case write_audiofile_result env of
                       Some m \<Rightarrow> Return (emit (Error (msg_extract_failed m)) s2)
                     | None \<Rightarrow> Next (emit (Progress 20) s2)))
      | _ \<Rightarrow> Raise ''NoneType'' s)"

text \<open>
  Lines 135 to 137: close the clip right after use. A \<^verbatim>\<open>close()\<close> that returns
  releases the handle; one that raises leaves it held.
\<close>

definition close_clip :: "env \<Rightarrow> state \<Rightarrow> flow" where
  "close_clip env s =
     (case video_clip s of
        None \<Rightarrow> Next s
      | Some c \<Rightarrow>
          (let s1 = call CloseClip s in
           case close_result env of
             Some m \<Rightarrow> Raise m s1
           | None \<Rightarrow> Next (s1\<lparr>handles := handles s1 - 1, video_clip := None\<rparr>)))"

text \<open>
  Lines 140 to 145: without the extracted file \<^verbatim>\<open>run\<close> returns; the error is
  emitted only when \<^verbatim>\<open>self.error.signal\<close> is falsy (an empty string).
\<close>

definition check_output :: "env \<Rightarrow> state \<Rightarrow> flow" where
  "check_output env s =
     (case temp_dir s of
        None \<Rightarrow> Raise ''NoneType'' s
      | Some d \<Rightarrow>
          if \<not> file_exists d original_audio_name (tmp s)
          then Return (if error_signal env = [] then emit (Error msg_no_output) s else s)
          else Next s)"

text \<open>
  Lines 148, 161, 168 and 188: \<^verbatim>\<open>if not self._is_running: return\<close>. A \<^verbatim>\<open>stop()\<close> of
  the interface thread that arrived since the previous poll is applied first.
\<close>

definition poll :: "env \<Rightarrow> nat \<Rightarrow> state \<Rightarrow> flow" where
  "poll env k s =
     (let s1 = (if stop_before env k then stop s else s) in
      if \<not> is_running s1 then Return s1 else Next s1)"

text \<open>
  Lines 151 to 159: load the model and the audio. \<^verbatim>\<open>init_df\<close> opens its log file in
  the model directory before it loads the checkpoint, so the file is written also when the
  call raises or exits. Its \<^verbatim>\<open>exit(1)\<close> raises \<open>SystemExit\<close>, which no handler of
  \<^verbatim>\<open>run\<close> catches.
\<close>

definition log_written :: "env \<Rightarrow> string list" where
  "log_written env =
     (if init_df_logs env
      then [os_path_join (os_path_join (base_path env) ''models/DeepFilterNet3'') ''enhance.log'']
      else [])"

definition load_model :: "env \<Rightarrow> state \<Rightarrow> flow" where
  "load_model env s =
     (case temp_dir s of
        None \<Rightarrow> Raise ''NoneType'' s
      | Some d \<Rightarrow>
          (let s0 = call (InitDf (os_path_join (base_path env) ''models/DeepFilterNet3'')) s;
               s1 = s0\<lparr>outside := outside s0 @ log_written env\<rparr>
           in case init_df_result env of
                InitExits rc \<Rightarrow> Escape (SystemExit rc) s1
              | InitRaises m \<Rightarrow> Raise m s1
              | InitOk \<Rightarrow>
                  (let s2 = call (LoadAudio (os_path_join d original_audio_name)) s1 in
                   case load_audio_result env of
                     Some m \<Rightarrow> Raise m s2
                   | None \<Rightarrow> Next (emit (Progress 40) s2))))"

text \<open>Lines 163 to 166: inference. No handler of its own: a raise goes to line 238.\<close>

definition enhance :: "env \<Rightarrow> state \<Rightarrow> flow" where
  "enhance env s =
     (let s1 = call (Enhance (atten_lim_db s)) s in
      case enhance_result env (atten_lim_db s) of
        EnhanceRaises m \<Rightarrow> Raise m s1
      | EnhanceReturns t \<Rightarrow> Next (emit (Progress 70) (s1\<lparr>enhanced_audio := t\<rparr>)))"

text \<open>Lines 170 to 184: save the enhanced audio; \<open>None\<close> is the only buffer refused.\<close>

definition persist :: "env \<Rightarrow> state \<Rightarrow> flow" where
  "persist env s =
     (case enhanced_audio s of
        None \<Rightarrow> Return (emit (Error msg_no_data) s)
      | Some t \<Rightarrow>
          (case temp_dir s of
             None \<Rightarrow> Raise ''NoneType'' s
           | Some d \<Rightarrow>
               (let s1 = call (SaveAudio (os_path_join d enhanced_audio_name)) s;
                    s2 = (if save_audio_creates env
                          then s1\<lparr>tmp := create_file d enhanced_audio_name (tmp s1)\<rparr> else s1)
                in case save_audio_result env t of
                     Some m \<Rightarrow> Return (emit (Error (msg_save_failed m)) s2)
                   | None \<Rightarrow> Next (emit (Progress 80) s2))))"

text \<open>Lines 196 to 209: the arguments of the final FFmpeg call.\<close>

definition remux_back_cmd :: "string \<Rightarrow> string \<Rightarrow> string \<Rightarrow> string \<Rightarrow> string list" where
  "remux_back_cmd ffmpeg_exe video enhanced_audio_path out =
     [ffmpeg_exe, ''-y'', ''-ignore_editlist'', ''1'',
      ''-i'', video, ''-i'', enhanced_audio_path,
      ''-map'', ''0:v:0'', ''-map'', ''1:a:0'',
      ''-c:v'', ''copy'', ''-c:a'', ''aac'', ''-b:a'', ''320k'',
      ''-shortest'', out]"

text \<open>
  Lines 192 to 236: the FFmpeg call with its three handlers, then the last progress
  value and the \<^verbatim>\<open>finished\<close> signal. \<^verbatim>\<open>e.stderr or e.stdout or 'Unknown FFmpeg error'\<close>
  takes the first non-empty text.
\<close>

definition remux_back :: "env \<Rightarrow> state \<Rightarrow> flow" where
  "remux_back env s =
     (case temp_dir s of
        None \<Rightarrow> Raise ''NoneType'' s
      | Some d \<Rightarrow>
          (case get_ffmpeg_exe env of
             Inl m \<Rightarrow> Return (emit (Error (msg_ffmpeg_unexpected m)) s)
           | Inr ffmpeg_exe \<Rightarrow>
               (let cmd = remux_back_cmd ffmpeg_exe (input_video s)
                            (os_path_join d enhanced_audio_name) (output_video s);
                    s1 = call (Subprocess_run cmd) s
                in case remux_back_proc env of
                     ExeNotFound m \<Rightarrow> Return (emit (Error msg_ffmpeg_not_found) s1)
                   | ProcFault m \<Rightarrow> Return (emit (Error (msg_ffmpeg_unexpected m)) s1)
                   | Exit rc out err \<Rightarrow>
                       (let s2 = (if remux_back_writes env
                                  then s1\<lparr>outside := outside s1 @ [output_video s1]\<rparr> else s1)
                        in if rc \<noteq> 0
                           then Return (emit (Error (msg_ffmpeg_error
                                   (if err \<noteq> [] then err
                                    else if out \<noteq> [] then out
                                    else ''Unknown FFmpeg error''))) s2)
                           else Next (emit (Finished (output_video s2) (msg_success (output_video s2)))
                                        (emit (Progress 100) s2))))))"

text \<open>The \<^verbatim>\<open>try\<close> block of \<^verbatim>\<open>run\<close>, lines 87 to 236, in source order.\<close>

definition run_try :: "env \<Rightarrow> state \<Rightarrow> flow" where
  "run_try env =
     chain [acquire env, open_clip env, extract_audio env, close_clip env,
            check_output env, poll env 1, load_model env, poll env 2, enhance env,
            poll env 3, persist env, poll env 4, remux_back env]"

text \<open>
  Lines 238 to 244: the outermost handler, \<^verbatim>\<open>except Exception\<close>. It emits only when
  \<^verbatim>\<open>self.error.signal\<close> is falsy. A \<^verbatim>\<open>BaseException\<close> that is not an
  \<^verbatim>\<open>Exception\<close> is not handled: \<open>handle_outer\<close> leaves the state as it is, and
  \<open>escaping\<close> is the exception that goes on through the \<^verbatim>\<open>finally\<close> block and
  out of \<^verbatim>\<open>run\<close>.
\<close>

definition handle_outer :: "env \<Rightarrow> flow \<Rightarrow> state" where
  "handle_outer env r =
     (case r of
        Next s \<Rightarrow> s
      | Return s \<Rightarrow> s
      | Raise m s \<Rightarrow> if error_signal env = [] then emit (Error (msg_unexpected m)) s else s
      | Escape e s \<Rightarrow> s)"

definition escaping :: "flow \<Rightarrow> exn option" where
  "escaping r =
     (case r of
        Next s \<Rightarrow> None
      | Return s \<Rightarrow> None
      | Raise m s \<Rightarrow> None
      | Escape e s \<Rightarrow> Some e)"

text \<open>Lines 246 to 252: close the clip if the worker still holds one; a raise is logged.\<close>

definition finally_close :: "env \<Rightarrow> state \<Rightarrow> state" where
  "finally_close env s =
     (case video_clip s of
        None \<Rightarrow> s
      | Some c \<Rightarrow>
          (let s1 = call CloseClip s in
           if close_finally_raises env then s1 else s1\<lparr>handles := handles s1 - 1\<rparr>))"

text \<open>
  Lines 263 to 269: the loop over the listing; a removal that raises \<open>OSError\<close> is logged
  and the loop goes on.
\<close>

fun remove_files :: "env \<Rightarrow> string \<Rightarrow> string list \<Rightarrow> state \<Rightarrow> state" where
  "remove_files env d [] s = s"
| "remove_files env d (f # fs) s =
     (let s1 = call (Remove (os_path_join d f)) s;
          s2 = (if remove_fails env d f then s1
                else s1\<lparr>tmp := (case tmp s1 d of
                                   None \<Rightarrow> tmp s1
                                 | Some l \<Rightarrow> (tmp s1)(d \<mapsto> removeAll f l))\<rparr>)
      in remove_files env d fs s2)"

text \<open>
  \<^verbatim>\<open>_cleanup\<close>, lines 257 to 279. \<^verbatim>\<open>os.rmdir\<close> fails on a directory that is not
  empty; a failing \<^verbatim>\<open>os.listdir\<close> is caught by the last handler.
\<close>

definition cleanup :: "env \<Rightarrow> string \<Rightarrow> state \<Rightarrow> state" where
  "cleanup env d s =
     (case tmp s d of
        None \<Rightarrow> s
      | Some l \<Rightarrow>
          (let s1 = call (Listdir d) s in
           if listdir_fails env then s1
           else
             (let s2 = remove_files env d l s1;
                  s3 = call (Rmdir d) s2
              in if rmdir_fails env \<or> tmp s3 d \<noteq> Some [] then s3
                 else s3\<lparr>tmp := (tmp s3)(d := None)\<rparr>)))"

text \<open>
  \<^verbatim>\<open>run\<close>, lines 80 to 255. When the imports of lines 19 to 30 failed,
  \<^verbatim>\<open>pyqtSignal\<close> is the stub that returns \<open>None\<close>, so \<^verbatim>\<open>self.error\<close> is \<open>None\<close> and
  line 82 raises \<open>AttributeError\<close> outside the \<^verbatim>\<open>try\<close>. \<^verbatim>\<open>if temp_dir:\<close> is false for
  \<open>None\<close> and for the empty string. The \<^verbatim>\<open>finally\<close> block runs on every way out of
  the \<^verbatim>\<open>try\<close> block; an exception that the handler did not catch leaves \<^verbatim>\<open>run\<close>
  after it.
\<close>

definition run :: "env \<Rightarrow> state \<Rightarrow> exn option \<times> state" where
  "run env s =
     (if \<not> DEEPFILTER_AVAILABLE env
      then (Some (AttributeError ''NoneType object has no attribute emit''), s)
      else
        (let r = run_try env (s\<lparr>temp_dir := None\<rparr>);
             s1 = handle_outer env r;
             s2 = finally_close env s1
         in (escaping r, case temp_dir s2 of
                           None \<Rightarrow> s2
                         | Some d \<Rightarrow> if d \<noteq> [] then cleanup env d s2 else s2)))"

text \<open>
  One job, as \<^verbatim>\<open>start_denoising\<close> starts it (lines 483 to 487): construct the worker,
  then \<^verbatim>\<open>run\<close> it. The logs of the job start empty. An exception of the constructor
  ends the job before any worker exists.
\<close>

definition job :: "env \<Rightarrow> string \<Rightarrow> string \<Rightarrow> int option \<Rightarrow> world \<Rightarrow> exn option \<times> world" where
  "job env input output atten w =
     (case DenoiseWorker_init env input output atten (w\<lparr>events := [], calls := []\<rparr>) of
        Inl (e, w') \<Rightarrow> (Some e, w')
      | Inr s \<Rightarrow>
          (case run env (if stop_before env 0 then stop s else s) of
             (r, s') \<Rightarrow> (r, world.truncate s')))"

text \<open>
  The slots that \<^verbatim>\<open>start_denoising\<close> connects to the \<^verbatim>\<open>finished\<close> and the
  \<^verbatim>\<open>error\<close> signal (lines 485, 486 and 493 to 510): the text they put into the status
  label, and the message box they show.
\<close>

datatype message_box = Information string string | Critical string string

definition denoising_finished :: "string \<Rightarrow> string \<Rightarrow> string \<times> message_box" where
  "denoising_finished output_path message = (message, Information ''Success'' message)"

definition denoising_error :: "string \<Rightarrow> string \<times> message_box" where
  "denoising_error error_message =
     (''Error: '' @ error_message, Critical ''Denoising Error'' error_message)"

section \<open>The paths through \<^verbatim>\<open>run\<close>\<close>

text \<open>
  The states on the straight path through the \<^verbatim>\<open>try\<close> block, written out. They are
  used to describe every way the block can end.
\<close>

definition logged :: "action list \<Rightarrow> event list \<Rightarrow> state \<Rightarrow> state" where
  "logged cs es s = s\<lparr>calls := calls s @ cs, events := events s @ es\<rparr>"

definition guarded :: "env \<Rightarrow> string \<Rightarrow> event list" where
  "guarded env msg = (if error_signal env = [] then [Error msg] else [])"

definition open_error :: "opened \<Rightarrow> string option" where
  "open_error r =
     (case r of OpenRaises m \<Rightarrow> Some m
      | OpenNone \<Rightarrow> Some ''VideoFileClip returned None.''
      | Opened c \<Rightarrow> None)"

definition pre_error :: "clip \<Rightarrow> string option" where
  "pre_error c =
     (case audio c of None \<Rightarrow> Some msg_no_audio
      | Some a \<Rightarrow> if has_write_audiofile a then None else Some msg_internal)"

definition acquired :: "state \<Rightarrow> string \<Rightarrow> string list \<Rightarrow> state" where
  "acquired s d rest =
     logged [Mkdtemp] [Progress 5]
       (s\<lparr>names := rest, temp_dir := Some d, tmp := (tmp s)(d \<mapsto> [])\<rparr>)"

definition clip_open :: "state \<Rightarrow> string \<Rightarrow> string list \<Rightarrow> clip \<Rightarrow> state" where
  "clip_open s d rest c =
     logged [OpenClip (input_video s)] []
       ((acquired s d rest)\<lparr>video_clip := Some c, handles := Suc (handles s)\<rparr>)"

definition closed :: "state \<Rightarrow> state" where
  "closed s = (logged [CloseClip] [] s)\<lparr>video_clip := None, handles := handles s - 1\<rparr>"

definition written :: "env \<Rightarrow> state \<Rightarrow> string \<Rightarrow> string list \<Rightarrow> clip \<Rightarrow> state" where
  "written env s d rest c =
     logged [WriteAudiofile (os_path_join d original_audio_name)] []
       ((clip_open s d rest c)\<lparr>tmp := (tmp s)(d \<mapsto>
           (if write_audiofile_creates env then [original_audio_name] else []))\<rparr>)"

definition extracted :: "env \<Rightarrow> state \<Rightarrow> string \<Rightarrow> string list \<Rightarrow> clip \<Rightarrow> state" where
  "extracted env s d rest c = closed (logged [] [Progress 20] (written env s d rest c))"

definition initialized :: "env \<Rightarrow> state \<Rightarrow> string \<Rightarrow> string list \<Rightarrow> clip \<Rightarrow> state" where
  "initialized env s d rest c =
     logged [InitDf (os_path_join (base_path env) ''models/DeepFilterNet3'')] []
       ((extracted env s d rest c)\<lparr>outside := outside s @ log_written env\<rparr>)"

definition loaded :: "env \<Rightarrow> state \<Rightarrow> string \<Rightarrow> string list \<Rightarrow> clip \<Rightarrow> state" where
  "loaded env s d rest c =
     logged [LoadAudio (os_path_join d original_audio_name)] [Progress 40]
       (initialized env s d rest c)"

definition inferred ::
  "env \<Rightarrow> state \<Rightarrow> string \<Rightarrow> string list \<Rightarrow> clip \<Rightarrow> tensor option \<Rightarrow> state" where
  "inferred env s d rest c t =
     logged [Enhance (atten_lim_db s)] [Progress 70]
       ((loaded env s d rest c)\<lparr>enhanced_audio := t\<rparr>)"

definition saved ::
  "env \<Rightarrow> state \<Rightarrow> string \<Rightarrow> string list \<Rightarrow> clip \<Rightarrow> tensor \<Rightarrow> state" where
  "saved env s d rest c b =
     logged [SaveAudio (os_path_join d enhanced_audio_name)] []
       ((inferred env s d rest c (Some b))\<lparr>tmp := (tmp s)(d \<mapsto>
           (if save_audio_creates env then [enhanced_audio_name, original_audio_name]
            else [original_audio_name]))\<rparr>)"

definition persisted ::
  "env \<Rightarrow> state \<Rightarrow> string \<Rightarrow> string list \<Rightarrow> clip \<Rightarrow> tensor \<Rightarrow> state" where
  "persisted env s d rest c b = logged [] [Progress 80] (saved env s d rest c b)"

definition invoked ::
  "env \<Rightarrow> state \<Rightarrow> string \<Rightarrow> string list \<Rightarrow> clip \<Rightarrow> tensor \<Rightarrow> string \<Rightarrow> state" where
  "invoked env s d rest c b exe =
     logged [Subprocess_run (remux_back_cmd exe (input_video s)
               (os_path_join d enhanced_audio_name) (output_video s))] []
       (persisted env s d rest c b)"

definition delivered ::
  "env \<Rightarrow> state \<Rightarrow> string \<Rightarrow> string list \<Rightarrow> clip \<Rightarrow> tensor \<Rightarrow> string \<Rightarrow> state" where
  "delivered env s d rest c b exe =
     (invoked env s d rest c b exe)\<lparr>outside := outside s @ log_written env @
        (if remux_back_writes env then [output_video s] else [])\<rparr>"

text \<open>The conditions under which the straight path gets as far as each stage.\<close>

definition reach_clip :: "env \<Rightarrow> state \<Rightarrow> string \<Rightarrow> string list \<Rightarrow> clip \<Rightarrow> bool" where
  "reach_clip env s d rest c =
     (mkdtemp (names s) (tmp s) = Some (d, rest) \<and> VideoFileClip_result env = Opened c)"

definition reach_extracted :: "env \<Rightarrow> state \<Rightarrow> string \<Rightarrow> string list \<Rightarrow> clip \<Rightarrow> bool" where
  "reach_extracted env s d rest c =
     (reach_clip env s d rest c \<and> pre_error c = None \<and> write_audiofile_result env = None
      \<and> close_result env = None \<and> write_audiofile_creates env)"

definition reach_loaded :: "env \<Rightarrow> state \<Rightarrow> string \<Rightarrow> string list \<Rightarrow> clip \<Rightarrow> bool" where
  "reach_loaded env s d rest c =
     (reach_extracted env s d rest c \<and> is_running s \<and> \<not> stop_before env 1
      \<and> init_df_result env = InitOk \<and> load_audio_result env = None)"

definition reach_inferred ::
  "env \<Rightarrow> state \<Rightarrow> string \<Rightarrow> string list \<Rightarrow> clip \<Rightarrow> tensor option \<Rightarrow> bool" where
  "reach_inferred env s d rest c t =
     (reach_loaded env s d rest c \<and> \<not> stop_before env 2
      \<and> enhance_result env (atten_lim_db s) = EnhanceReturns t)"

definition reach_saved ::
  "env \<Rightarrow> state \<Rightarrow> string \<Rightarrow> string list \<Rightarrow> clip \<Rightarrow> tensor \<Rightarrow> bool" where
  "reach_saved env s d rest c b =
     (reach_inferred env s d rest c (Some b) \<and> \<not> stop_before env 3
      \<and> save_audio_result env b = None)"

definition reach_invoked ::
  "env \<Rightarrow> state \<Rightarrow> string \<Rightarrow> string list \<Rightarrow> clip \<Rightarrow> tensor \<Rightarrow> string \<Rightarrow> bool" where
  "reach_invoked env s d rest c b exe =
     (reach_saved env s d rest c b \<and> \<not> stop_before env 4 \<and> get_ffmpeg_exe env = Inr exe)"

text \<open>
  \<open>outcome env s x s'\<close>: the \<^verbatim>\<open>try\<close> block with its outermost handler, started in
  \<open>s\<close>, can end in \<open>s'\<close>, with \<open>x\<close> the exception that the handler did not catch, if
  any. One rule for each way out, in source order.
\<close>

inductive outcome :: "env \<Rightarrow> state \<Rightarrow> exn option \<Rightarrow> state \<Rightarrow> bool"
  for env :: env and s :: state where
  no_temp_dir:
    "mkdtemp (names s) (tmp s) = None \<Longrightarrow>
     outcome env s None
       (handle_outer env (Raise ''No usable temporary directory name found'' (logged [Mkdtemp] [] s)))"
| open_failed:
    "mkdtemp (names s) (tmp s) = Some (d, rest) \<Longrightarrow>
     open_error (VideoFileClip_result env) = Some m \<Longrightarrow>
     outcome env s None
       (logged [OpenClip (input_video s)] [Error (msg_open_failed m)]
          ((acquired s d rest)\<lparr>video_clip := None\<rparr>))"
| unusable_close_raises:
    "reach_clip env s d rest c \<Longrightarrow> pre_error c = Some e \<Longrightarrow> close_result env = Some m \<Longrightarrow>
     outcome env s None
       (handle_outer env (Raise m (logged [CloseClip] [] (logged [] [Error e] (clip_open s d rest c)))))"
| unusable:
    "reach_clip env s d rest c \<Longrightarrow> pre_error c = Some e \<Longrightarrow> close_result env = None \<Longrightarrow>
     outcome env s None
       (logged [] (guarded env msg_no_output)
          (closed (logged [] [Error e] (clip_open s d rest c))))"
| write_raises:
    "reach_clip env s d rest c \<Longrightarrow> pre_error c = None \<Longrightarrow>
     write_audiofile_result env = Some m \<Longrightarrow>
     outcome env s None (logged [] [Error (msg_extract_failed m)] (written env s d rest c))"
| close_raises:
    "reach_clip env s d rest c \<Longrightarrow> pre_error c = None \<Longrightarrow>
     write_audiofile_result env = None \<Longrightarrow> close_result env = Some m \<Longrightarrow>
     outcome env s None
       (handle_outer env
          (Raise m (logged [CloseClip] [] (logged [] [Progress 20] (written env s d rest c)))))"
| no_output_file:
    "reach_clip env s d rest c \<Longrightarrow> pre_error c = None \<Longrightarrow>
     write_audiofile_result env = None \<Longrightarrow> close_result env = None \<Longrightarrow>
     \<not> write_audiofile_creates env \<Longrightarrow>
     outcome env s None (logged [] (guarded env msg_no_output) (extracted env s d rest c))"
| stopped_1:
    "reach_extracted env s d rest c \<Longrightarrow> stop_before env 1 \<or> \<not> is_running s \<Longrightarrow>
     outcome env s None ((extracted env s d rest c)\<lparr>is_running := False\<rparr>)"
| init_df_exits:
    "reach_extracted env s d rest c \<Longrightarrow> is_running s \<Longrightarrow> \<not> stop_before env 1 \<Longrightarrow>
     init_df_result env = InitExits rc \<Longrightarrow>
     outcome env s (Some (SystemExit rc)) (initialized env s d rest c)"
| init_df_raises:
    "reach_extracted env s d rest c \<Longrightarrow> is_running s \<Longrightarrow> \<not> stop_before env 1 \<Longrightarrow>
     init_df_result env = InitRaises m \<Longrightarrow>
     outcome env s None (handle_outer env (Raise m (initialized env s d rest c)))"
| load_audio_raises:
    "reach_extracted env s d rest c \<Longrightarrow> is_running s \<Longrightarrow> \<not> stop_before env 1 \<Longrightarrow>
     init_df_result env = InitOk \<Longrightarrow> load_audio_result env = Some m \<Longrightarrow>
     outcome env s None
       (handle_outer env
          (Raise m (logged [LoadAudio (os_path_join d original_audio_name)] []
                      (initialized env s d rest c))))"
| stopped_2:
    "reach_loaded env s d rest c \<Longrightarrow> stop_before env 2 \<Longrightarrow>
     outcome env s None ((loaded env s d rest c)\<lparr>is_running := False\<rparr>)"
| enhance_raises:
    "reach_loaded env s d rest c \<Longrightarrow> \<not> stop_before env 2 \<Longrightarrow>
     enhance_result env (atten_lim_db s) = EnhanceRaises m \<Longrightarrow>
     outcome env s None
       (handle_outer env
          (Raise m (logged [Enhance (atten_lim_db s)] [] (loaded env s d rest c))))"
| stopped_3:
    "reach_inferred env s d rest c t \<Longrightarrow> stop_before env 3 \<Longrightarrow>
     outcome env s None ((inferred env s d rest c t)\<lparr>is_running := False\<rparr>)"
| no_data:
    "reach_inferred env s d rest c None \<Longrightarrow> \<not> stop_before env 3 \<Longrightarrow>
     outcome env s None (logged [] [Error msg_no_data] (inferred env s d rest c None))"
| save_raises:
    "reach_inferred env s d rest c (Some b) \<Longrightarrow> \<not> stop_before env 3 \<Longrightarrow>
     save_audio_result env b = Some m \<Longrightarrow>
     outcome env s None (logged [] [Error (msg_save_failed m)] (saved env s d rest c b))"
| stopped_4:
    "reach_saved env s d rest c b \<Longrightarrow> stop_before env 4 \<Longrightarrow>
     outcome env s None ((persisted env s d rest c b)\<lparr>is_running := False\<rparr>)"
| no_ffmpeg_exe:
    "reach_saved env s d rest c b \<Longrightarrow> \<not> stop_before env 4 \<Longrightarrow>
     get_ffmpeg_exe env = Inl m \<Longrightarrow>
     outcome env s None (logged [] [Error (msg_ffmpeg_unexpected m)] (persisted env s d rest c b))"
| ffmpeg_not_found:
    "reach_invoked env s d rest c b exe \<Longrightarrow> remux_back_proc env = ExeNotFound m \<Longrightarrow>
     outcome env s None (logged [] [Error msg_ffmpeg_not_found] (invoked env s d rest c b exe))"
| ffmpeg_fault:
    "reach_invoked env s d rest c b exe \<Longrightarrow> remux_back_proc env = ProcFault m \<Longrightarrow>
     outcome env s None (logged [] [Error (msg_ffmpeg_unexpected m)] (invoked env s d rest c b exe))"
| ffmpeg_error:
    "reach_invoked env s d rest c b exe \<Longrightarrow> remux_back_proc env = Exit rc out err \<Longrightarrow>
     rc \<noteq> 0 \<Longrightarrow>
     outcome env s None
       (logged []
          [Error (msg_ffmpeg_error
             (if err \<noteq> [] then err else if out \<noteq> [] then out else ''Unknown FFmpeg error''))]
          (delivered env s d rest c b exe))"
| success:
    "reach_invoked env s d rest c b exe \<Longrightarrow> remux_back_proc env = Exit 0 out err \<Longrightarrow>
     outcome env s None
       (logged [] [Progress 100, Finished (output_video s) (msg_success (output_video s))]
          (delivered env s d rest c b exe))"


section \<open>Notions used to state the properties\<close>

text \<open>The percent values of the progress events, in order.\<close>

fun progress_values :: "event list \<Rightarrow> int list" where
  "progress_values [] = []"
| "progress_values (Progress p # es) = p # progress_values es"
| "progress_values (Finished out m # es) = progress_values es"
| "progress_values (Error m # es) = progress_values es"

definition checkpoints :: "int list" where
  "checkpoints = [5, 20, 40, 70, 80, 100]"

text \<open>
  A terminal event is an emission of \<^verbatim>\<open>finished\<close> or of \<^verbatim>\<open>error\<close>; the worker has no
  other signal that could end a job.
\<close>

fun is_terminal :: "event \<Rightarrow> bool" where
  "is_terminal (Progress p) = False"
| "is_terminal (Finished out m) = True"
| "is_terminal (Error m) = True"

definition terminal_events :: "event list \<Rightarrow> event list" where
  "terminal_events es = filter is_terminal es"

text \<open>
  The poll of \<^verbatim>\<open>_is_running\<close> that stands before a call: 1 before the model and the
  audio are loaded, 2 before inference, 3 before the enhanced audio is saved, 4 before
  the final FFmpeg call. The calls of the sanitizer, of the extraction and of the
  cleanup have no poll before them.
\<close>

fun guard :: "action \<Rightarrow> nat option" where
  "guard (InitDf p) = Some 1"
| "guard (LoadAudio p) = Some 1"
| "guard (Enhance a) = Some 2"
| "guard (SaveAudio p) = Some 3"
| "guard (Subprocess_run cmd) = Some 4"
| "guard Mkdtemp = None"
| "guard (Subprocess_remux cmd) = None"
| "guard (OpenClip p) = None"
| "guard (WriteAudiofile p) = None"
| "guard CloseClip = None"
| "guard (Listdir d) = None"
| "guard (Remove p) = None"
| "guard (Rmdir d) = None"

text \<open>The calls made after the \<^verbatim>\<open>try\<close> block: closing the clip and the cleanup.\<close>

fun housekeeping :: "action \<Rightarrow> bool" where
  "housekeeping CloseClip = True"
| "housekeeping (Listdir d) = True"
| "housekeeping (Remove p) = True"
| "housekeeping (Rmdir d) = True"
| "housekeeping Mkdtemp = False"
| "housekeeping (Subprocess_remux cmd) = False"
| "housekeeping (OpenClip p) = False"
| "housekeeping (WriteAudiofile p) = False"
| "housekeeping (InitDf p) = False"
| "housekeeping (LoadAudio p) = False"
| "housekeeping (Enhance a) = False"
| "housekeeping (SaveAudio p) = False"
| "housekeeping (Subprocess_run cmd) = False"

fun is_final_ffmpeg :: "action \<Rightarrow> bool" where
  "is_final_ffmpeg (Subprocess_run cmd) = True"
| "is_final_ffmpeg Mkdtemp = False"
| "is_final_ffmpeg (Subprocess_remux cmd) = False"
| "is_final_ffmpeg (OpenClip p) = False"
| "is_final_ffmpeg (WriteAudiofile p) = False"
| "is_final_ffmpeg CloseClip = False"
| "is_final_ffmpeg (InitDf p) = False"
| "is_final_ffmpeg (LoadAudio p) = False"
| "is_final_ffmpeg (Enhance a) = False"
| "is_final_ffmpeg (SaveAudio p) = False"
| "is_final_ffmpeg (Listdir d) = False"
| "is_final_ffmpeg (Remove p) = False"
| "is_final_ffmpeg (Rmdir d) = False"

text \<open>The end of \<^verbatim>\<open>run\<close> (lines 254 and 255), and the state in which a job starts it.\<close>

definition tidy :: "env \<Rightarrow> state \<Rightarrow> state" where
  "tidy env s =
     (case temp_dir s of None \<Rightarrow> s | Some d \<Rightarrow> if d \<noteq> [] then cleanup env d s else s)"

definition started :: "env \<Rightarrow> state \<Rightarrow> state" where
  "started env s = (if stop_before env 0 then stop s else s)\<lparr>temp_dir := None\<rparr>"

section \<open>Concrete jobs\<close>

text \<open>
  A job in which every external call succeeds. \<open>error_signal\<close> is the signature string
  that PyQt keeps in the \<^verbatim>\<open>signal\<close> attribute of a bound signal.
\<close>

definition env_ok :: env where
  "env_ok =
     \<lparr>DEEPFILTER_AVAILABLE = True, error_signal = ''2error(QString)'',
      path_name = (\<lambda>p. ''clip.mp4''), base_path = ''/app'',
      which_ffmpeg = Some ''/usr/bin/ffmpeg'', get_ffmpeg_exe = Inr ''/opt/ffmpeg'',
      sanitize_proc = Exit 0 [] [], sanitize_creates = True,
      VideoFileClip_result = Opened (VideoClip (Some (AudioClip True))),
      write_audiofile_result = None, write_audiofile_creates = True,
      close_result = None, close_finally_raises = False,
      init_df_result = InitOk, init_df_logs = True, load_audio_result = None,
      enhance_result = (\<lambda>a. EnhanceReturns (Some (Tensor [1, 2, 3]))),
      save_audio_result = (\<lambda>t. None), save_audio_creates = True,
      remux_back_proc = Exit 0 [] [], remux_back_writes = True,
      listdir_fails = False, remove_fails = (\<lambda>d f. False), rmdir_fails = False,
      stop_before = (\<lambda>k. False)\<rparr>"

definition world0 :: world where
  "world0 =
     \<lparr>tmp = Map.empty, names = [''/tmp/a'', ''/tmp/b'', ''/tmp/c''], outside = [],
      handles = 0, events = [], calls = []\<rparr>"

text \<open>The worker that the constructor makes for that job in \<open>world0\<close>.\<close>

definition worker0 :: state where
  "worker0 =
     \<lparr>tmp = [''/tmp/a'' \<mapsto> [''remux_clip.mp4'']], names = [''/tmp/b'', ''/tmp/c''],
      outside = [], handles = 0, events = [],
      calls = [Mkdtemp, Subprocess_remux
        [''/usr/bin/ffmpeg'', ''-y'', ''-ignore_editlist'', ''1'', ''-i'',
         ''/home/u/clip.mp4'', ''-map'', ''0:v'', ''-map'', ''0:a?'', ''-c'', ''copy'',
         ''-movflags'', ''+faststart'', ''/tmp/a/remux_clip.mp4'']],
      input_video = ''/tmp/a/remux_clip.mp4'', output_video = ''/home/u/out.mp4'',
      atten_lim_db = None, is_running = True, video_clip = None,
      temp_dir = None, enhanced_audio = None\<rparr>"

text \<open>The sanitizer's FFmpeg exits with status 1.\<close>

definition env_sanitize_fails :: env where
  "env_sanitize_fails = env_ok\<lparr>sanitize_proc := Exit 1 [] ''moov atom not found''\<rparr>"

text \<open>\<^verbatim>\<open>stop()\<close> is called while the audio is being extracted.\<close>

definition env_stop_1 :: env where
  "env_stop_1 = env_ok\<lparr>stop_before := (\<lambda>k. k = 1)\<rparr>"

text \<open>\<^verbatim>\<open>stop()\<close> is called before \<^verbatim>\<open>run\<close> starts.\<close>

definition env_stop_0 :: env where
  "env_stop_0 = env_ok\<lparr>stop_before := (\<lambda>k. k = 0)\<rparr>"

text \<open>One \<^verbatim>\<open>os.remove\<close> of the cleanup fails.\<close>

definition env_remove_fails :: env where
  "env_remove_fails = env_ok\<lparr>remove_fails := (\<lambda>d f. f = ''temp_original_audio.wav'')\<rparr>"

text \<open>The clip has no audio track.\<close>

definition env_no_audio :: env where
  "env_no_audio = env_ok\<lparr>VideoFileClip_result := Opened (VideoClip None)\<rparr>"

text \<open>Inference raises.\<close>

definition env_enhance_raises :: env where
  "env_enhance_raises = env_ok\<lparr>enhance_result := (\<lambda>a. EnhanceRaises ''out of memory'')\<rparr>"

text \<open>\<^verbatim>\<open>init_df\<close> finds no checkpoint and calls \<^verbatim>\<open>exit(1)\<close>.\<close>

definition env_init_df_exits :: env where
  "env_init_df_exits = env_ok\<lparr>init_df_result := InitExits 1\<rparr>"

text \<open>Inference returns \<open>None\<close>; inference returns a buffer with no samples.\<close>

definition env_no_data :: env where
  "env_no_data = env_ok\<lparr>enhance_result := (\<lambda>a. EnhanceReturns None)\<rparr>"

definition env_empty_buffer :: env where
  "env_empty_buffer = env_ok\<lparr>enhance_result := (\<lambda>a. EnhanceReturns (Some (Tensor [])))\<rparr>"

text \<open>Saving the enhanced audio raises.\<close>

definition env_save_raises :: env where
  "env_save_raises = env_ok\<lparr>save_audio_result := (\<lambda>t. Some ''No space left on device'')\<rparr>"

text \<open>The clip cannot be opened.\<close>

definition env_open_raises :: env where
  "env_open_raises = env_ok\<lparr>VideoFileClip_result := OpenRaises ''could not read''\<rparr>"

section \<open>Every run ends in one of the listed ways\<close>

lemmas aux_defs = emit_def call_def Let_def stop_def create_file_def file_exists_def
lemmas path_defs = logged_def guarded_def acquired_def clip_open_def closed_def written_def extracted_def
   initialized_def loaded_def
   inferred_def saved_def persisted_def invoked_def delivered_def

lemma names_differ: "enhanced_audio_name \<noteq> original_audio_name"
  by (simp add: enhanced_audio_name_def original_audio_name_def)

lemma acquire_Next:
  "mkdtemp (names s) (tmp s) = Some (d, rest) \<Longrightarrow> acquire env s = Next (acquired s d rest)"
  by (simp add: acquire_def path_defs aux_defs)

lemma acquire_Raise:
  "mkdtemp (names s) (tmp s) = None \<Longrightarrow>
   acquire env s = Raise ''No usable temporary directory name found'' (logged [Mkdtemp] [] s)"
  by (simp add: acquire_def path_defs aux_defs)

lemma open_clip_Next:
  "VideoFileClip_result env = Opened c \<Longrightarrow>
   open_clip env (acquired s d rest) = Next (clip_open s d rest c)"
  by (simp add: open_clip_def path_defs aux_defs)

lemma open_clip_Return:
  "open_error (VideoFileClip_result env) = Some m \<Longrightarrow>
   open_clip env (acquired s d rest) =
   Return (logged [OpenClip (input_video s)] [Error (msg_open_failed m)]
             ((acquired s d rest)\<lparr>video_clip := None\<rparr>))"
  by (auto simp add: open_clip_def open_error_def path_defs aux_defs split: opened.splits)

lemma extract_audio_unusable:
  "pre_error c = Some e \<Longrightarrow>
   extract_audio env (clip_open s d rest c) = Next (logged [] [Error e] (clip_open s d rest c))"
  by (auto simp add: extract_audio_def pre_error_def path_defs aux_defs split: option.splits if_splits)

lemma extract_audio_Return:
  "pre_error c = None \<Longrightarrow> write_audiofile_result env = Some m \<Longrightarrow>
   extract_audio env (clip_open s d rest c) =
   Return (logged [] [Error (msg_extract_failed m)] (written env s d rest c))"
  by (auto simp add: extract_audio_def pre_error_def path_defs aux_defs split: option.splits if_splits)

lemma extract_audio_Next:
  "pre_error c = None \<Longrightarrow> write_audiofile_result env = None \<Longrightarrow>
   extract_audio env (clip_open s d rest c) = Next (logged [] [Progress 20] (written env s d rest c))"
  by (auto simp add: extract_audio_def pre_error_def path_defs aux_defs split: option.splits if_splits)

lemma close_clip_unusable:
  "close_clip env (logged [] [Error e] (clip_open s d rest c)) =
   (case close_result env of
      Some m \<Rightarrow> Raise m (logged [CloseClip] [] (logged [] [Error e] (clip_open s d rest c)))
    | None \<Rightarrow> Next (closed (logged [] [Error e] (clip_open s d rest c))))"
  by (simp add: close_clip_def path_defs aux_defs split: option.splits)

lemma close_clip_written:
  "close_clip env (logged [] [Progress 20] (written env s d rest c)) =
   (case close_result env of
      Some m \<Rightarrow> Raise m (logged [CloseClip] [] (logged [] [Progress 20] (written env s d rest c)))
    | None \<Rightarrow> Next (extracted env s d rest c))"
  by (simp add: close_clip_def path_defs aux_defs split: option.splits)

lemma check_output_unusable:
  "check_output env (closed (logged [] [Error e] (clip_open s d rest c))) =
   Return (logged [] (guarded env msg_no_output) (closed (logged [] [Error e] (clip_open s d rest c))))"
  by (simp add: check_output_def path_defs aux_defs)

lemma check_output_extracted:
  "check_output env (extracted env s d rest c) =
   (if write_audiofile_creates env then Next (extracted env s d rest c)
    else Return (logged [] (guarded env msg_no_output) (extracted env s d rest c)))"
  by (simp add: check_output_def path_defs aux_defs)

lemma poll_eq:
  "poll env k s =
   (if stop_before env k \<or> \<not> is_running s then Return (s\<lparr>is_running := False\<rparr>) else Next s)"
  by (auto simp add: poll_def aux_defs)

lemma is_running_spine:
  "is_running (extracted env s d rest c) = is_running s"
  "is_running (loaded env s d rest c) = is_running s"
  "is_running (inferred env s d rest c t) = is_running s"
  "is_running (persisted env s d rest c b) = is_running s"
  by (simp_all add: path_defs)

lemma load_model_extracted:
  "load_model env (extracted env s d rest c) =
   (case init_df_result env of
      InitExits rc \<Rightarrow> Escape (SystemExit rc) (initialized env s d rest c)
    | InitRaises m \<Rightarrow> Raise m (initialized env s d rest c)
    | InitOk \<Rightarrow>
       (case load_audio_result env of
          Some m \<Rightarrow> Raise m (logged [LoadAudio (os_path_join d original_audio_name)] []
                      (initialized env s d rest c))
        | None \<Rightarrow> Next (loaded env s d rest c)))"
  by (simp add: load_model_def path_defs aux_defs split: option.splits model_init.splits)

lemma enhance_loaded:
  "enhance env (loaded env s d rest c) =
   (case enhance_result env (atten_lim_db s) of
      EnhanceRaises m \<Rightarrow> Raise m (logged [Enhance (atten_lim_db s)] [] (loaded env s d rest c))
    | EnhanceReturns t \<Rightarrow> Next (inferred env s d rest c t))"
  by (simp add: enhance_def path_defs aux_defs split: enhanced.splits)

lemma persist_inferred:
  "write_audiofile_creates env \<Longrightarrow> persist env (inferred env s d rest c t) =
   (case t of
      None \<Rightarrow> Return (logged [] [Error msg_no_data] (inferred env s d rest c None))
    | Some b \<Rightarrow>
       (case save_audio_result env b of
          Some m \<Rightarrow> Return (logged [] [Error (msg_save_failed m)] (saved env s d rest c b))
        | None \<Rightarrow> Next (persisted env s d rest c b)))"
  by (simp add: persist_def path_defs aux_defs names_differ split: option.splits)

lemma remux_back_persisted:
  "remux_back env (persisted env s d rest c b) =
   (case get_ffmpeg_exe env of
      Inl m \<Rightarrow> Return (logged [] [Error (msg_ffmpeg_unexpected m)] (persisted env s d rest c b))
    | Inr exe \<Rightarrow>
       (case remux_back_proc env of
          ExeNotFound m \<Rightarrow> Return (logged [] [Error msg_ffmpeg_not_found] (invoked env s d rest c b exe))
        | ProcFault m \<Rightarrow> Return (logged [] [Error (msg_ffmpeg_unexpected m)] (invoked env s d rest c b exe))
        | Exit rc out err \<Rightarrow>
            if rc \<noteq> 0
            then Return (logged []
                  [Error (msg_ffmpeg_error
                     (if err \<noteq> [] then err else if out \<noteq> [] then out else ''Unknown FFmpeg error''))]
                  (delivered env s d rest c b exe))
            else Next (logged [] [Progress 100, Finished (output_video s) (msg_success (output_video s))]
                  (delivered env s d rest c b exe))))"
  by (simp add: remux_back_def path_defs aux_defs split: sum.splits proc.splits)


lemma handle_outer_simps [simp]:
  "handle_outer env (Next x) = x" "handle_outer env (Return x) = x"
  "handle_outer env (Escape e x) = x"
  by (simp_all add: handle_outer_def)

lemma escaping_simps [simp]:
  "escaping (Next x) = None" "escaping (Return x) = None" "escaping (Raise m x) = None"
  "escaping (Escape e x) = Some e"
  by (simp_all add: escaping_def)

lemmas reach_defs = reach_clip_def reach_extracted_def reach_loaded_def reach_inferred_def
  reach_saved_def reach_invoked_def

lemma from_clip:
  "reach_clip env s d rest c \<Longrightarrow>
   run_try env s =
   chain [extract_audio env, close_clip env, check_output env, poll env 1, load_model env,
          poll env 2, enhance env, poll env 3, persist env, poll env 4, remux_back env]
     (clip_open s d rest c)"
  by (simp add: run_try_def reach_defs acquire_Next open_clip_Next)

lemma from_extracted:
  "reach_extracted env s d rest c \<Longrightarrow>
   run_try env s =
   chain [poll env 1, load_model env, poll env 2, enhance env, poll env 3, persist env,
          poll env 4, remux_back env]
     (extracted env s d rest c)"
  using from_clip[of env s d rest c]
  by (simp add: reach_extracted_def extract_audio_Next close_clip_written check_output_extracted)

lemma from_loaded:
  "reach_loaded env s d rest c \<Longrightarrow>
   run_try env s =
   chain [poll env 2, enhance env, poll env 3, persist env, poll env 4, remux_back env]
     (loaded env s d rest c)"
  using from_extracted[of env s d rest c]
  by (simp add: reach_loaded_def poll_eq is_running_spine load_model_extracted)

lemma from_inferred:
  "reach_inferred env s d rest c t \<Longrightarrow>
   run_try env s =
   chain [poll env 3, persist env, poll env 4, remux_back env] (inferred env s d rest c t)"
  using from_loaded[of env s d rest c]
  by (simp add: reach_inferred_def reach_loaded_def poll_eq is_running_spine enhance_loaded)

lemma from_saved:
  "reach_saved env s d rest c b \<Longrightarrow>
   run_try env s = chain [poll env 4, remux_back env] (persisted env s d rest c b)"
  using from_inferred[of env s d rest c "Some b"]
  by (simp add: reach_saved_def reach_inferred_def reach_loaded_def
      reach_extracted_def poll_eq is_running_spine persist_inferred)

lemma outcome_saved:
  assumes r: "reach_saved env s d rest c b"
  shows "outcome env s (escaping (run_try env s)) (handle_outer env (run_try env s))"
proof (cases "stop_before env 4")
  case True
  with r show ?thesis
    by (simp add: from_saved[OF r] poll_eq outcome.stopped_4)
next
  case False
  have run: "is_running s"
    using r by (simp add: reach_defs)
  show ?thesis
  proof (cases "get_ffmpeg_exe env")
    case (Inl m)
    with r False run show ?thesis
      by (simp add: from_saved[OF r] poll_eq is_running_spine remux_back_persisted outcome.no_ffmpeg_exe)
  next
    case (Inr exe)
    with r False have i: "reach_invoked env s d rest c b exe"
      by (simp add: reach_invoked_def)
    show ?thesis
    proof (cases "remux_back_proc env")
      case (Exit rc out err)
      with r False run Inr i show ?thesis
        by (cases "rc = 0")
          (simp_all add: from_saved[OF r] poll_eq is_running_spine remux_back_persisted
            outcome.success outcome.ffmpeg_error)
    next
      case (ExeNotFound m)
      with r False run Inr i show ?thesis
        by (simp add: from_saved[OF r] poll_eq is_running_spine remux_back_persisted
            outcome.ffmpeg_not_found)
    next
      case (ProcFault m)
      with r False run Inr i show ?thesis
        by (simp add: from_saved[OF r] poll_eq is_running_spine remux_back_persisted
            outcome.ffmpeg_fault)
    qed
  qed
qed

lemma outcome_inferred:
  assumes r: "reach_inferred env s d rest c t"
  shows "outcome env s (escaping (run_try env s)) (handle_outer env (run_try env s))"
proof (cases "stop_before env 3")
  case True
  with r show ?thesis
    by (simp add: from_inferred[OF r] poll_eq outcome.stopped_3)
next
  case False
  have run: "is_running s" and w: "write_audiofile_creates env"
    using r by (simp_all add: reach_defs)
  show ?thesis
  proof (cases t)
    case None
    with r False run w show ?thesis
      by (simp add: from_inferred[OF r] poll_eq is_running_spine persist_inferred outcome.no_data)
  next
    case (Some b)
    show ?thesis
    proof (cases "save_audio_result env b")
      case None
      with r False Some have "reach_saved env s d rest c b"
        by (simp add: reach_saved_def)
      then show ?thesis by (rule outcome_saved)
    next
      case (Some m)
      with r False run w \<open>t = Some b\<close> show ?thesis
        by (simp add: from_inferred[OF r] poll_eq is_running_spine persist_inferred outcome.save_raises)
    qed
  qed
qed

lemma outcome_loaded:
  assumes r: "reach_loaded env s d rest c"
  shows "outcome env s (escaping (run_try env s)) (handle_outer env (run_try env s))"
proof (cases "stop_before env 2")
  case True
  with r show ?thesis
    by (simp add: from_loaded[OF r] poll_eq outcome.stopped_2)
next
  case False
  have run: "is_running s"
    using r by (simp add: reach_defs)
  show ?thesis
  proof (cases "enhance_result env (atten_lim_db s)")
    case (EnhanceRaises m)
    with r False run show ?thesis
      by (simp add: from_loaded[OF r] poll_eq is_running_spine enhance_loaded outcome.enhance_raises)
  next
    case (EnhanceReturns t)
    with r False have "reach_inferred env s d rest c t"
      by (simp add: reach_inferred_def)
    then show ?thesis by (rule outcome_inferred)
  qed
qed

lemma outcome_extracted:
  assumes r: "reach_extracted env s d rest c"
  shows "outcome env s (escaping (run_try env s)) (handle_outer env (run_try env s))"
proof (cases "stop_before env 1 \<or> \<not> is_running s")
  case True
  with r show ?thesis
    by (simp add: from_extracted[OF r] poll_eq is_running_spine outcome.stopped_1)
next
  case False
  show ?thesis
  proof (cases "init_df_result env")
    case (InitExits rc)
    with r False show ?thesis
      by (simp add: from_extracted[OF r] poll_eq is_running_spine load_model_extracted
          outcome.init_df_exits)
  next
    case (InitRaises m)
    with r False show ?thesis
      by (simp add: from_extracted[OF r] poll_eq is_running_spine load_model_extracted
          outcome.init_df_raises)
  next
    case InitOk
    show ?thesis
    proof (cases "load_audio_result env")
      case (Some m)
      with r False InitOk show ?thesis
        by (simp add: from_extracted[OF r] poll_eq is_running_spine load_model_extracted
            outcome.load_audio_raises)
    next
      case n: None
      with r False InitOk have "reach_loaded env s d rest c"
        by (simp add: reach_loaded_def)
      then show ?thesis by (rule outcome_loaded)
    qed
  qed
qed

lemma outcome_clip:
  assumes r: "reach_clip env s d rest c"
  shows "outcome env s (escaping (run_try env s)) (handle_outer env (run_try env s))"
proof (cases "pre_error c")
  case (Some e)
  with r show ?thesis
    by (cases "close_result env")
      (simp_all add: from_clip[OF r] extract_audio_unusable close_clip_unusable check_output_unusable
        outcome.unusable outcome.unusable_close_raises)
next
  case None
  show ?thesis
  proof (cases "write_audiofile_result env")
    case (Some m)
    with r None show ?thesis
      by (simp add: from_clip[OF r] extract_audio_Return outcome.write_raises)
  next
    case w: None
    show ?thesis
    proof (cases "close_result env")
      case (Some m)
      with r None w show ?thesis
        by (simp add: from_clip[OF r] extract_audio_Next close_clip_written outcome.close_raises)
    next
      case cl: None
      show ?thesis
      proof (cases "write_audiofile_creates env")
        case True
        with r None w cl have "reach_extracted env s d rest c"
          by (simp add: reach_extracted_def)
        then show ?thesis by (rule outcome_extracted)
      next
        case False
        with r None w cl show ?thesis
          by (simp add: from_clip[OF r] extract_audio_Next close_clip_written check_output_extracted
              outcome.no_output_file)
      qed
    qed
  qed
qed

lemma run_try_outcome:
  "outcome env s (escaping (run_try env s)) (handle_outer env (run_try env s))"
proof (cases "mkdtemp (names s) (tmp s)")
  case None
  then show ?thesis
    by (simp add: run_try_def acquire_Raise outcome.no_temp_dir)
next
  case (Some p)
  then obtain d rest where m: "mkdtemp (names s) (tmp s) = Some (d, rest)"
    by (cases p) simp
  show ?thesis
  proof (cases "VideoFileClip_result env")
    case (Opened c)
    with m have "reach_clip env s d rest c"
      by (simp add: reach_clip_def)
    then show ?thesis by (rule outcome_clip)
  next
    case (OpenRaises msg)
    then have "open_error (VideoFileClip_result env) = Some msg"
      by (simp add: open_error_def)
    with m show ?thesis
      by (simp add: run_try_def acquire_Next open_clip_Return outcome.open_failed)
  next
    case OpenNone
    then have "open_error (VideoFileClip_result env) = Some ''VideoFileClip returned None.''"
      by (simp add: open_error_def)
    with m show ?thesis
      by (simp add: run_try_def acquire_Next open_clip_Return outcome.open_failed)
  qed
qed



section \<open>The end of a run, and the constructor\<close>

lemma truncate_fields [simp]:
  "tmp (world.truncate s) = tmp s" "names (world.truncate s) = names s"
  "outside (world.truncate s) = outside s" "handles (world.truncate s) = handles s"
  "events (world.truncate s) = events s" "calls (world.truncate s) = calls s"
  by (simp_all add: world.truncate_def)

lemma mkdtemp_fresh: "mkdtemp ns fs = Some (d, rest) \<Longrightarrow> fs d = None"
  by (induction ns) (auto split: if_splits)

lemma remove_files_frame [simp]:
  "events (remove_files env d l s) = events s"
  "outside (remove_files env d l s) = outside s"
  "handles (remove_files env d l s) = handles s"
  "temp_dir (remove_files env d l s) = temp_dir s"
  by (induction l arbitrary: s) (simp_all add: call_def Let_def)

lemma remove_files_calls:
  "calls (remove_files env d l s) = calls s @ map (\<lambda>f. Remove (os_path_join d f)) l"
  by (induction l arbitrary: s) (simp_all add: call_def Let_def)

lemma remove_files_other:
  "d' \<noteq> d \<Longrightarrow> tmp (remove_files env d l s) d' = tmp s d'"
  by (induction l arbitrary: s) (simp_all add: call_def Let_def split: option.splits)

lemma remove_files_all:
  "\<forall>f. \<not> remove_fails env d f \<Longrightarrow>
   tmp (remove_files env d l s) d = map_option (filter (\<lambda>f. f \<notin> set l)) (tmp s d)"
proof (induction l arbitrary: s)
  case Nil
  then show ?case by (cases "tmp s d") simp_all
next
  case (Cons f fs)
  then show ?case
    by (cases "tmp s d") (auto simp add: call_def Let_def removeAll_filter_not_eq intro!: filter_cong)
qed

lemma cleanup_frame [simp]:
  "events (cleanup env d s) = events s"
  "outside (cleanup env d s) = outside s"
  "handles (cleanup env d s) = handles s"
  by (simp_all add: cleanup_def call_def Let_def split: option.splits)

lemma cleanup_other: "d' \<noteq> d \<Longrightarrow> tmp (cleanup env d s) d' = tmp s d'"
  by (simp add: cleanup_def call_def Let_def remove_files_other split: option.splits)

lemma cleanup_removes:
  assumes "\<not> listdir_fails env" "\<forall>f. \<not> remove_fails env d f" "\<not> rmdir_fails env"
  shows "tmp (cleanup env d s) d = None"
proof (cases "tmp s d")
  case None
  then show ?thesis by (simp add: cleanup_def)
next
  case (Some l)
  have "tmp (remove_files env d l (call (Listdir d) s)) d = Some []"
    using assms(2) Some by (simp add: remove_files_all call_def)
  with assms Some show ?thesis
    by (simp add: cleanup_def call_def Let_def)
qed

lemma cleanup_calls:
  "\<exists>xs. calls (cleanup env d s) = calls s @ xs \<and> list_all housekeeping xs"
  by (simp add: cleanup_def call_def Let_def remove_files_calls list_all_iff split: option.splits)

lemma finally_close_frame [simp]:
  "events (finally_close env s) = events s"
  "outside (finally_close env s) = outside s"
  "tmp (finally_close env s) = tmp s"
  "temp_dir (finally_close env s) = temp_dir s"
  by (simp_all add: finally_close_def call_def Let_def split: option.splits)

lemma finally_close_calls:
  "calls (finally_close env s) = calls s @ (case video_clip s of None \<Rightarrow> [] | Some c \<Rightarrow> [CloseClip])"
  by (simp add: finally_close_def call_def Let_def split: option.splits)

lemma finally_close_handles:
  "handles (finally_close env s) =
     (case video_clip s of None \<Rightarrow> handles s
      | Some c \<Rightarrow> if close_finally_raises env then handles s else handles s - 1)"
  by (simp add: finally_close_def call_def Let_def split: option.splits)

lemma tidy_frame [simp]:
  "events (tidy env s) = events s"
  "outside (tidy env s) = outside s"
  "handles (tidy env s) = handles s"
  by (simp_all add: tidy_def split: option.splits)

lemma tidy_calls: "\<exists>xs. calls (tidy env s) = calls s @ xs \<and> list_all housekeeping xs"
  using cleanup_calls[of env _ s] by (auto simp add: tidy_def split: option.splits)

lemma end_calls:
  "\<exists>xs. calls (tidy env (finally_close env s)) = calls s @ xs \<and> list_all housekeeping xs"
proof -
  obtain xs where xs: "calls (tidy env (finally_close env s)) = calls (finally_close env s) @ xs"
    "list_all housekeeping xs"
    using tidy_calls by blast
  then show ?thesis
    by (cases "video_clip s") (simp_all add: finally_close_calls)
qed

lemma run_available:
  "DEEPFILTER_AVAILABLE env \<Longrightarrow>
   run env s =
     (escaping (run_try env (s\<lparr>temp_dir := None\<rparr>)),
      tidy env (finally_close env (handle_outer env (run_try env (s\<lparr>temp_dir := None\<rparr>)))))"
  by (simp add: run_def tidy_def Let_def)

lemma run_unavailable:
  "\<not> DEEPFILTER_AVAILABLE env \<Longrightarrow>
   run env s = (Some (AttributeError ''NoneType object has no attribute emit''), s)"
  by (simp add: run_def)

lemma remux_Inl:
  "remux env p w = (Inl e, w') \<Longrightarrow>
   events w' = events w \<and> outside w' = outside w \<and> handles w' = handles w \<and>
   (\<exists>xs. calls w' = calls w @ xs \<and>
         (\<forall>a\<in>set xs. a = Mkdtemp \<or> (\<exists>c. a = Subprocess_remux c)))"
  by (auto simp add: remux_def Let_def split: option.splits prod.splits sum.splits proc.splits if_splits)

lemma remux_Inr:
  "remux env p w = (Inr q, w') \<Longrightarrow>
   events w' = events w \<and> outside w' = outside w \<and> handles w' = handles w \<and>
   (\<exists>exe. calls w' = calls w @ [Mkdtemp, Subprocess_remux (remux_cmd exe p q)])"
  by (auto simp add: remux_def Let_def split: option.splits prod.splits sum.splits proc.splits if_splits)


lemma init_Inl:
  "DenoiseWorker_init env i out a w = Inl (e, w') \<Longrightarrow>
   events w' = events w \<and> outside w' = outside w \<and> handles w' = handles w \<and>
   (\<exists>xs. calls w' = calls w @ xs \<and>
         (\<forall>a\<in>set xs. a = Mkdtemp \<or> (\<exists>c. a = Subprocess_remux c)))"
  using remux_Inl[of env i w e w']
  by (auto simp add: DenoiseWorker_init_def split: prod.splits sum.splits)

lemma init_Inr:
  assumes "DenoiseWorker_init env i out a w = Inr s"
  shows "events s = events w" "outside s = outside w" "handles s = handles w"
    "\<exists>exe. calls s = calls w @ [Mkdtemp, Subprocess_remux (remux_cmd exe i (input_video s))]"
    "output_video s = out" "atten_lim_db s = a" "is_running s" "video_clip s = None"
    "temp_dir s = None"
proof -
  obtain q w' where r: "remux env i w = (Inr q, w')"
    and s: "s = \<lparr>tmp = tmp w', names = names w', outside = outside w',
               handles = handles w', events = events w', calls = calls w',
               input_video = q, output_video = out, atten_lim_db = a,
               is_running = True, video_clip = None,
               temp_dir = None, enhanced_audio = None\<rparr>"
    using assms by (auto simp add: DenoiseWorker_init_def split: prod.splits sum.splits)
  from remux_Inr[OF r] s
  show "events s = events w" "outside s = outside w" "handles s = handles w"
    "\<exists>exe. calls s = calls w @ [Mkdtemp, Subprocess_remux (remux_cmd exe i (input_video s))]"
    "output_video s = out" "atten_lim_db s = a" "is_running s" "video_clip s = None"
    "temp_dir s = None"
    by simp_all
qed

lemma started_fields [simp]:
  "events (started env s) = events s" "calls (started env s) = calls s"
  "outside (started env s) = outside s" "handles (started env s) = handles s"
  "tmp (started env s) = tmp s" "names (started env s) = names s"
  "input_video (started env s) = input_video s" "output_video (started env s) = output_video s"
  "atten_lim_db (started env s) = atten_lim_db s" "video_clip (started env s) = video_clip s"
  "temp_dir (started env s) = None"
  "is_running (started env s) = (is_running s \<and> \<not> stop_before env 0)"
  by (simp_all add: started_def stop_def)

lemma job_cases [case_names crash unavailable ran]:
  obtains (crash) e w' where
      "DenoiseWorker_init env i out a (w\<lparr>events := [], calls := []\<rparr>) = Inl (e, w')"
      "job env i out a w = (Some e, w')"
  | (unavailable) s where
      "DenoiseWorker_init env i out a (w\<lparr>events := [], calls := []\<rparr>) = Inr s"
      "\<not> DEEPFILTER_AVAILABLE env"
      "job env i out a w =
         (Some (AttributeError ''NoneType object has no attribute emit''),
          world.truncate (if stop_before env 0 then stop s else s))"
  | (ran) s S x where
      "DenoiseWorker_init env i out a (w\<lparr>events := [], calls := []\<rparr>) = Inr s"
      "DEEPFILTER_AVAILABLE env"
      "outcome env (started env s) x S"
      "job env i out a w = (x, world.truncate (tidy env (finally_close env S)))"
proof (cases "DenoiseWorker_init env i out a (w\<lparr>events := [], calls := []\<rparr>)")
  case (Inl p)
  then show ?thesis
    using crash by (cases p) (simp add: job_def)
next
  case (Inr s)
  show ?thesis
  proof (cases "DEEPFILTER_AVAILABLE env")
    case True
    have "outcome env (started env s) (escaping (run_try env (started env s)))
            (handle_outer env (run_try env (started env s)))"
      by (rule run_try_outcome)
    moreover have "job env i out a w =
        (escaping (run_try env (started env s)),
         world.truncate (tidy env (finally_close env
           (handle_outer env (run_try env (started env s))))))"
      using Inr True by (simp add: job_def run_available started_def)
    ultimately show ?thesis
      using ran Inr True by blast
  next
    case False
    with Inr show ?thesis
      using unavailable by (simp add: job_def run_unavailable)
  qed
qed


section \<open>What each way out leaves behind\<close>

lemma guard_housekeeping: "housekeeping a \<Longrightarrow> guard a = None"
  by (cases a) simp_all

lemma final_ffmpeg_guard: "is_final_ffmpeg a \<Longrightarrow> guard a = Some 4"
  by (cases a) simp_all

lemma no_final_ffmpeg: "\<forall>a\<in>set xs. guard a = None \<Longrightarrow> filter is_final_ffmpeg xs = []"
  by (induction xs) (auto dest: final_ffmpeg_guard)


lemma logged_fields [simp]:
  "events (logged cs es x) = events x @ es" "calls (logged cs es x) = calls x @ cs"
  "video_clip (logged cs es x) = video_clip x" "handles (logged cs es x) = handles x"
  "temp_dir (logged cs es x) = temp_dir x" "tmp (logged cs es x) = tmp x"
  "outside (logged cs es x) = outside x"
  by (simp_all add: logged_def)

lemma handle_outer_Raise [simp]:
  "handle_outer env (Raise m x) = logged [] (guarded env (msg_unexpected m)) x"
  by (simp add: handle_outer_def guarded_def logged_def emit_def)

lemma acquired_fields [simp]:
  "events (acquired s d rest) = events s @ [Progress 5]"
  "calls (acquired s d rest) = calls s @ [Mkdtemp]"
  "video_clip (acquired s d rest) = video_clip s" "handles (acquired s d rest) = handles s"
  "temp_dir (acquired s d rest) = Some d" "tmp (acquired s d rest) = (tmp s)(d \<mapsto> [])"
  "outside (acquired s d rest) = outside s"
  by (simp_all add: acquired_def logged_def)

lemma clip_open_fields [simp]:
  "events (clip_open s d rest c) = events s @ [Progress 5]"
  "calls (clip_open s d rest c) = calls s @ [Mkdtemp, OpenClip (input_video s)]"
  "video_clip (clip_open s d rest c) = Some c" "handles (clip_open s d rest c) = Suc (handles s)"
  "temp_dir (clip_open s d rest c) = Some d" "tmp (clip_open s d rest c) = (tmp s)(d \<mapsto> [])"
  "outside (clip_open s d rest c) = outside s"
  by (simp_all add: clip_open_def acquired_def logged_def)

lemma closed_fields [simp]:
  "events (closed x) = events x" "calls (closed x) = calls x @ [CloseClip]"
  "video_clip (closed x) = None" "handles (closed x) = handles x - 1"
  "temp_dir (closed x) = temp_dir x" "tmp (closed x) = tmp x" "outside (closed x) = outside x"
  by (simp_all add: closed_def logged_def)

lemma written_fields [simp]:
  "events (written env s d rest c) = events s @ [Progress 5]"
  "calls (written env s d rest c) =
     calls s @ [Mkdtemp, OpenClip (input_video s),
                WriteAudiofile (os_path_join d original_audio_name)]"
  "video_clip (written env s d rest c) = Some c"
  "handles (written env s d rest c) = Suc (handles s)"
  "temp_dir (written env s d rest c) = Some d"
  "tmp (written env s d rest c) =
     (tmp s)(d \<mapsto> (if write_audiofile_creates env then [original_audio_name] else []))"
  "outside (written env s d rest c) = outside s"
  by (simp_all add: written_def)

lemma extracted_fields [simp]:
  "events (extracted env s d rest c) = events s @ [Progress 5, Progress 20]"
  "calls (extracted env s d rest c) =
     calls s @ [Mkdtemp, OpenClip (input_video s),
                WriteAudiofile (os_path_join d original_audio_name), CloseClip]"
  "video_clip (extracted env s d rest c) = None"
  "handles (extracted env s d rest c) = handles s"
  "temp_dir (extracted env s d rest c) = Some d"
  "tmp (extracted env s d rest c) =
     (tmp s)(d \<mapsto> (if write_audiofile_creates env then [original_audio_name] else []))"
  "outside (extracted env s d rest c) = outside s"
  by (simp_all add: extracted_def)

lemma initialized_fields [simp]:
  "events (initialized env s d rest c) = events s @ [Progress 5, Progress 20]"
  "calls (initialized env s d rest c) =
     calls s @ [Mkdtemp, OpenClip (input_video s),
                WriteAudiofile (os_path_join d original_audio_name), CloseClip,
                InitDf (os_path_join (base_path env) ''models/DeepFilterNet3'')]"
  "video_clip (initialized env s d rest c) = None"
  "handles (initialized env s d rest c) = handles s"
  "temp_dir (initialized env s d rest c) = Some d"
  "tmp (initialized env s d rest c) =
     (tmp s)(d \<mapsto> (if write_audiofile_creates env then [original_audio_name] else []))"
  "outside (initialized env s d rest c) = outside s @ log_written env"
  by (simp_all add: initialized_def)

lemma loaded_fields [simp]:
  "events (loaded env s d rest c) = events s @ [Progress 5, Progress 20, Progress 40]"
  "calls (loaded env s d rest c) =
     calls s @ [Mkdtemp, OpenClip (input_video s),
                WriteAudiofile (os_path_join d original_audio_name), CloseClip,
                InitDf (os_path_join (base_path env) ''models/DeepFilterNet3''),
                LoadAudio (os_path_join d original_audio_name)]"
  "video_clip (loaded env s d rest c) = None"
  "handles (loaded env s d rest c) = handles s"
  "temp_dir (loaded env s d rest c) = Some d"
  "tmp (loaded env s d rest c) =
     (tmp s)(d \<mapsto> (if write_audiofile_creates env then [original_audio_name] else []))"
  "outside (loaded env s d rest c) = outside s @ log_written env"
  by (simp_all add: loaded_def)

lemma inferred_fields [simp]:
  "events (inferred env s d rest c t) =
     events s @ [Progress 5, Progress 20, Progress 40, Progress 70]"
  "calls (inferred env s d rest c t) =
     calls s @ [Mkdtemp, OpenClip (input_video s),
                WriteAudiofile (os_path_join d original_audio_name), CloseClip,
                InitDf (os_path_join (base_path env) ''models/DeepFilterNet3''),
                LoadAudio (os_path_join d original_audio_name), Enhance (atten_lim_db s)]"
  "video_clip (inferred env s d rest c t) = None"
  "handles (inferred env s d rest c t) = handles s"
  "temp_dir (inferred env s d rest c t) = Some d"
  "tmp (inferred env s d rest c t) =
     (tmp s)(d \<mapsto> (if write_audiofile_creates env then [original_audio_name] else []))"
  "outside (inferred env s d rest c t) = outside s @ log_written env"
  by (simp_all add: inferred_def)

lemma saved_fields [simp]:
  "events (saved env s d rest c b) =
     events s @ [Progress 5, Progress 20, Progress 40, Progress 70]"
  "calls (saved env s d rest c b) =
     calls s @ [Mkdtemp, OpenClip (input_video s),
                WriteAudiofile (os_path_join d original_audio_name), CloseClip,
                InitDf (os_path_join (base_path env) ''models/DeepFilterNet3''),
                LoadAudio (os_path_join d original_audio_name), Enhance (atten_lim_db s),
                SaveAudio (os_path_join d enhanced_audio_name)]"
  "video_clip (saved env s d rest c b) = None"
  "handles (saved env s d rest c b) = handles s"
  "temp_dir (saved env s d rest c b) = Some d"
  "tmp (saved env s d rest c b) =
     (tmp s)(d \<mapsto> (if save_audio_creates env then [enhanced_audio_name, original_audio_name]
                   else [original_audio_name]))"
  "outside (saved env s d rest c b) = outside s @ log_written env"
  by (simp_all add: saved_def)

lemma persisted_fields [simp]:
  "events (persisted env s d rest c b) =
     events s @ [Progress 5, Progress 20, Progress 40, Progress 70, Progress 80]"
  "calls (persisted env s d rest c b) = calls (saved env s d rest c b)"
  "video_clip (persisted env s d rest c b) = None"
  "handles (persisted env s d rest c b) = handles s"
  "temp_dir (persisted env s d rest c b) = Some d"
  "tmp (persisted env s d rest c b) = tmp (saved env s d rest c b)"
  "outside (persisted env s d rest c b) = outside s @ log_written env"
  by (simp_all add: persisted_def)

lemma invoked_fields [simp]:
  "events (invoked env s d rest c b exe) = events (persisted env s d rest c b)"
  "calls (invoked env s d rest c b exe) =
     calls (saved env s d rest c b) @
     [Subprocess_run (remux_back_cmd exe (input_video s)
        (os_path_join d enhanced_audio_name) (output_video s))]"
  "video_clip (invoked env s d rest c b exe) = None"
  "handles (invoked env s d rest c b exe) = handles s"
  "temp_dir (invoked env s d rest c b exe) = Some d"
  "tmp (invoked env s d rest c b exe) = tmp (saved env s d rest c b)"
  "outside (invoked env s d rest c b exe) = outside s @ log_written env"
  by (simp_all add: invoked_def)

lemma delivered_fields [simp]:
  "events (delivered env s d rest c b exe) = events (persisted env s d rest c b)"
  "calls (delivered env s d rest c b exe) = calls (invoked env s d rest c b exe)"
  "video_clip (delivered env s d rest c b exe) = None"
  "handles (delivered env s d rest c b exe) = handles s"
  "temp_dir (delivered env s d rest c b exe) = Some d"
  "tmp (delivered env s d rest c b exe) = tmp (saved env s d rest c b)"
  "outside (delivered env s d rest c b exe) =
     outside s @ log_written env @ (if remux_back_writes env then [output_video s] else [])"
  by (simp_all add: delivered_def)

lemmas obs = guarded_def terminal_events_def checkpoints_def

lemma outcome_events:
  assumes "outcome env s x S" "events s = []"
  shows "progress_values (events S) = take (length (progress_values (events S))) checkpoints"
    and "events S = map Progress (progress_values (events S)) @ terminal_events (events S)"
    and "length (terminal_events (events S)) \<le> 2"
    and "error_signal env \<noteq> [] \<Longrightarrow> length (terminal_events (events S)) \<le> 1"
    and "Finished p m \<in> set (events S) \<Longrightarrow>
           terminal_events (events S) = [Finished p m] \<and> progress_values (events S) = checkpoints"
proof -
  show "progress_values (events S) = take (length (progress_values (events S))) checkpoints"
    using assms by (cases rule: outcome.cases) (simp_all add: obs)
  show "events S = map Progress (progress_values (events S)) @ terminal_events (events S)"
    using assms by (cases rule: outcome.cases) (simp_all add: obs)
  show "length (terminal_events (events S)) \<le> 2"
    using assms by (cases rule: outcome.cases) (simp_all add: obs)
  show "error_signal env \<noteq> [] \<Longrightarrow> length (terminal_events (events S)) \<le> 1"
    using assms by (cases rule: outcome.cases) (simp_all add: obs)
  show "Finished p m \<in> set (events S) \<Longrightarrow>
           terminal_events (events S) = [Finished p m] \<and> progress_values (events S) = checkpoints"
    using assms by (cases rule: outcome.cases) (simp_all add: obs split: if_splits)
qed


lemma outcome_guard:
  assumes "outcome env s x S" "\<forall>a\<in>set (calls s). guard a = None" "a \<in> set (calls S)"
    "guard a = Some k"
  shows "is_running s \<and> 1 \<le> k \<and> k \<le> 4 \<and> \<not> stop_before env 1 \<and>
         (2 \<le> k \<longrightarrow> \<not> stop_before env 2) \<and> (3 \<le> k \<longrightarrow> \<not> stop_before env 3) \<and>
         (4 \<le> k \<longrightarrow> \<not> stop_before env 4)"
  using assms by (cases rule: outcome.cases) (auto simp add: reach_defs)

lemma outcome_no_audio:
  assumes "outcome env s x S" "mkdtemp (names s) (tmp s) = Some (d, rest)"
    "VideoFileClip_result env = Opened c" "audio c = None"
  shows "events S = events s @ [Progress 5, Error msg_no_audio] @
           guarded env (case close_result env of None \<Rightarrow> msg_no_output | Some m \<Rightarrow> msg_unexpected m)"
    and "calls S = calls s @ [Mkdtemp, OpenClip (input_video s), CloseClip]"
    and "x = None"
proof -
  show "events S = events s @ [Progress 5, Error msg_no_audio] @
           guarded env (case close_result env of None \<Rightarrow> msg_no_output | Some m \<Rightarrow> msg_unexpected m)"
    using assms
    by (cases rule: outcome.cases) (auto simp add: reach_defs open_error_def pre_error_def)
  show "calls S = calls s @ [Mkdtemp, OpenClip (input_video s), CloseClip]"
    using assms
    by (cases rule: outcome.cases) (auto simp add: reach_defs open_error_def pre_error_def)
  show "x = None"
    using assms
    by (cases rule: outcome.cases) (auto simp add: reach_defs open_error_def pre_error_def)
qed

lemma outcome_inference:
  assumes "outcome env s x S" "events s = []" "\<forall>a\<in>set (calls s). guard a = None"
    "Enhance a \<in> set (calls S)"
  shows "a = atten_lim_db s"
    and "enhance_result env a = EnhanceRaises m \<Longrightarrow>
           events S = [Progress 5, Progress 20, Progress 40] @ guarded env (msg_unexpected m) \<and>
           (\<forall>x\<in>set (calls S). guard x \<noteq> Some 3 \<and> guard x \<noteq> Some 4)"
    and "enhance_result env a = EnhanceReturns None \<Longrightarrow>
           (\<forall>x\<in>set (calls S). guard x \<noteq> Some 3 \<and> guard x \<noteq> Some 4) \<and>
           (\<not> stop_before env 3 \<longrightarrow>
              events S = [Progress 5, Progress 20, Progress 40, Progress 70, Error msg_no_data])"
    and "enhance_result env a = EnhanceReturns (Some b) \<Longrightarrow> \<not> stop_before env 3 \<Longrightarrow>
         save_audio_result env b = Some m \<Longrightarrow>
           events S = [Progress 5, Progress 20, Progress 40, Progress 70, Error (msg_save_failed m)] \<and>
           (\<forall>x\<in>set (calls S). guard x \<noteq> Some 4) \<and> (\<exists>p. SaveAudio p \<in> set (calls S))"
proof -
  show a: "a = atten_lim_db s"
    using assms by (cases rule: outcome.cases) auto
  show "enhance_result env a = EnhanceRaises m \<Longrightarrow>
           events S = [Progress 5, Progress 20, Progress 40] @ guarded env (msg_unexpected m) \<and>
           (\<forall>x\<in>set (calls S). guard x \<noteq> Some 3 \<and> guard x \<noteq> Some 4)"
    using assms unfolding a by (cases rule: outcome.cases) (auto simp add: reach_defs)
  show "enhance_result env a = EnhanceReturns None \<Longrightarrow>
           (\<forall>x\<in>set (calls S). guard x \<noteq> Some 3 \<and> guard x \<noteq> Some 4) \<and>
           (\<not> stop_before env 3 \<longrightarrow>
              events S = [Progress 5, Progress 20, Progress 40, Progress 70, Error msg_no_data])"
    using assms unfolding a by (cases rule: outcome.cases) (auto simp add: reach_defs)
  show "enhance_result env a = EnhanceReturns (Some b) \<Longrightarrow> \<not> stop_before env 3 \<Longrightarrow>
         save_audio_result env b = Some m \<Longrightarrow>
           events S = [Progress 5, Progress 20, Progress 40, Progress 70, Error (msg_save_failed m)] \<and>
           (\<forall>x\<in>set (calls S). guard x \<noteq> Some 4) \<and> (\<exists>p. SaveAudio p \<in> set (calls S))"
    using assms unfolding a by (cases rule: outcome.cases) (auto simp add: reach_defs)
qed

lemma outcome_final_call:
  assumes "outcome env s x S" "events s = []" "\<forall>a\<in>set (calls s). guard a = None"
  shows "length (filter is_final_ffmpeg (calls S)) \<le> 1"
    and "Subprocess_run cmd \<in> set (calls S) \<Longrightarrow>
           (\<exists>exe d. cmd = remux_back_cmd exe (input_video s)
                      (os_path_join d enhanced_audio_name) (output_video s) \<and>
                    SaveAudio (os_path_join d enhanced_audio_name) \<in> set (calls S)) \<and>
           take 5 (events S) = map Progress [5, 20, 40, 70, 80]"
    and "outside S = outside s \<or>
           InitDf (os_path_join (base_path env) ''models/DeepFilterNet3'') \<in> set (calls S) \<and>
           (outside S = outside s @ log_written env \<or>
            outside S = outside s @ log_written env @ [output_video s] \<and>
            (\<exists>cmd. Subprocess_run cmd \<in> set (calls S)))"
proof -
  have none: "filter is_final_ffmpeg (calls s) = []"
    using assms(3) by (rule no_final_ffmpeg)
  show "length (filter is_final_ffmpeg (calls S)) \<le> 1"
    using assms(1) none by (cases rule: outcome.cases) simp_all
  show "Subprocess_run cmd \<in> set (calls S) \<Longrightarrow>
           (\<exists>exe d. cmd = remux_back_cmd exe (input_video s)
                      (os_path_join d enhanced_audio_name) (output_video s) \<and>
                    SaveAudio (os_path_join d enhanced_audio_name) \<in> set (calls S)) \<and>
           take 5 (events S) = map Progress [5, 20, 40, 70, 80]"
    using assms by (cases rule: outcome.cases) auto
  show "outside S = outside s \<or>
           InitDf (os_path_join (base_path env) ''models/DeepFilterNet3'') \<in> set (calls S) \<and>
           (outside S = outside s @ log_written env \<or>
            outside S = outside s @ log_written env @ [output_video s] \<and>
            (\<exists>cmd. Subprocess_run cmd \<in> set (calls S)))"
    using assms(1) by (cases rule: outcome.cases) auto
qed

lemma outcome_handles:
  assumes "outcome env s x S" "video_clip s = None"
  shows "(video_clip S = None \<and> handles S = handles s) \<or>
         (video_clip S \<noteq> None \<and> handles S = Suc (handles s))"
    and "OpenClip p \<in> set (calls S) \<Longrightarrow> \<forall>q. OpenClip q \<notin> set (calls s) \<Longrightarrow>
         VideoFileClip_result env = Opened c \<Longrightarrow>
         video_clip S \<noteq> None \<or> CloseClip \<in> set (calls S)"
proof -
  show "(video_clip S = None \<and> handles S = handles s) \<or>
         (video_clip S \<noteq> None \<and> handles S = Suc (handles s))"
    using assms by (cases rule: outcome.cases) simp_all
  show "OpenClip p \<in> set (calls S) \<Longrightarrow> \<forall>q. OpenClip q \<notin> set (calls s) \<Longrightarrow>
         VideoFileClip_result env = Opened c \<Longrightarrow>
         video_clip S \<noteq> None \<or> CloseClip \<in> set (calls S)"
    using assms by (cases rule: outcome.cases) (simp_all add: open_error_def)
qed

lemma outcome_tmp:
  assumes "outcome env s x S" "temp_dir s = None"
  shows "mkdtemp (names s) (tmp s) = None \<Longrightarrow> temp_dir S = None \<and> tmp S = tmp s"
    and "mkdtemp (names s) (tmp s) = Some (d, rest) \<Longrightarrow>
           temp_dir S = Some d \<and> (\<forall>d'. d' \<noteq> d \<longrightarrow> tmp S d' = tmp s d')"
    and "length (filter (\<lambda>a. a = Mkdtemp) (calls S)) =
           Suc (length (filter (\<lambda>a. a = Mkdtemp) (calls s)))"
proof -
  show "mkdtemp (names s) (tmp s) = None \<Longrightarrow> temp_dir S = None \<and> tmp S = tmp s"
    using assms by (cases rule: outcome.cases) (simp_all add: reach_defs)
  show "mkdtemp (names s) (tmp s) = Some (d, rest) \<Longrightarrow>
           temp_dir S = Some d \<and> (\<forall>d'. d' \<noteq> d \<longrightarrow> tmp S d' = tmp s d')"
    using assms by (cases rule: outcome.cases) (auto simp add: reach_defs)
  show "length (filter (\<lambda>a. a = Mkdtemp) (calls S)) =
           Suc (length (filter (\<lambda>a. a = Mkdtemp) (calls s)))"
    using assms by (cases rule: outcome.cases) simp_all
qed

lemma outcome_escape:
  assumes "outcome env s x S"
  shows "x = None \<or> (\<exists>rc. init_df_result env = InitExits rc \<and> x = Some (SystemExit rc))"
  using assms by (cases rule: outcome.cases) simp_all

lemma outcome_one_terminal:
  assumes "outcome env s x S" "events s = []" "is_running s" "\<forall>k. \<not> stop_before env k"
    "error_signal env \<noteq> []" "mkdtemp (names s) (tmp s) \<noteq> None" "close_result env = None"
    "write_audiofile_result env = None \<longrightarrow> write_audiofile_creates env"
    "init_df_result env = InitOk" "load_audio_result env = None"
    "\<forall>m. enhance_result env (atten_lim_db s) \<noteq> EnhanceRaises m"
  shows "length (terminal_events (events S)) = 1"
  using assms by (cases rule: outcome.cases) (simp_all add: obs reach_defs)

lemma outcome_stopped:
  assumes "outcome env s x S" "events s = []"
  shows "stop_before env 1 \<or> \<not> is_running s \<Longrightarrow> Progress 20 \<in> set (events S) \<Longrightarrow>
         close_result env = None \<Longrightarrow> write_audiofile_creates env \<Longrightarrow>
           terminal_events (events S) = []"
    and "stop_before env 2 \<Longrightarrow> Progress 40 \<in> set (events S) \<Longrightarrow> terminal_events (events S) = []"
    and "stop_before env 3 \<Longrightarrow> Progress 70 \<in> set (events S) \<Longrightarrow> terminal_events (events S) = []"
    and "stop_before env 4 \<Longrightarrow> Progress 80 \<in> set (events S) \<Longrightarrow> terminal_events (events S) = []"
proof -
  show "stop_before env 1 \<or> \<not> is_running s \<Longrightarrow> Progress 20 \<in> set (events S) \<Longrightarrow>
         close_result env = None \<Longrightarrow> write_audiofile_creates env \<Longrightarrow>
           terminal_events (events S) = []"
    using assms by (cases rule: outcome.cases) (auto simp add: obs reach_defs)
  show "stop_before env 2 \<Longrightarrow> Progress 40 \<in> set (events S) \<Longrightarrow> terminal_events (events S) = []"
    using assms by (cases rule: outcome.cases) (auto simp add: obs reach_defs)
  show "stop_before env 3 \<Longrightarrow> Progress 70 \<in> set (events S) \<Longrightarrow> terminal_events (events S) = []"
    using assms by (cases rule: outcome.cases) (auto simp add: obs reach_defs)
  show "stop_before env 4 \<Longrightarrow> Progress 80 \<in> set (events S) \<Longrightarrow> terminal_events (events S) = []"
    using assms by (cases rule: outcome.cases) (auto simp add: obs reach_defs)
qed

section \<open>Evaluating concrete jobs\<close>

lemmas job_defs = job_def DenoiseWorker_init_def remux_def remux_cmd_def run_def run_try_def
  acquire_def open_clip_def extract_audio_def close_clip_def check_output_def poll_def
  load_model_def log_written_def enhance_def persist_def remux_back_def remux_back_cmd_def
  handle_outer_def escaping_def
  finally_close_def cleanup_def emit_def call_def create_file_def file_exists_def
  world.truncate_def stop_def Let_def os_path_join_def original_audio_name_def
  enhanced_audio_name_def

lemmas env_defs = env_ok_def world0_def env_sanitize_fails_def env_stop_1_def env_stop_0_def
  env_remove_fails_def env_no_audio_def env_enhance_raises_def env_init_df_exits_def
  env_no_data_def env_empty_buffer_def env_save_raises_def env_open_raises_def worker0_def

section \<open>Whole jobs\<close>

lemma housekeeping_not_final: "list_all housekeeping xs \<Longrightarrow> filter is_final_ffmpeg xs = []"
  by (rule no_final_ffmpeg) (simp add: list_all_iff guard_housekeeping)

lemma housekeeping_not_mkdtemp: "list_all housekeeping xs \<Longrightarrow> filter (\<lambda>a. a = Mkdtemp) xs = []"
  by (induction xs) auto

lemma housekeeping_guard: "list_all housekeeping xs \<Longrightarrow> a \<in> set xs \<Longrightarrow> guard a = None"
  by (simp add: list_all_iff guard_housekeeping)

lemma worker_start:
  assumes "DenoiseWorker_init env i out a (w\<lparr>events := [], calls := []\<rparr>) = Inr s"
  shows "events (started env s) = []"
    and "\<forall>x\<in>set (calls (started env s)). guard x = None"
    and "\<forall>q. OpenClip q \<notin> set (calls (started env s))"
    and "\<exists>exe. calls (started env s) = [Mkdtemp, Subprocess_remux (remux_cmd exe i (input_video s))]"
    and "video_clip (started env s) = None"
    and "output_video (started env s) = out"
    and "atten_lim_db (started env s) = a"
    and "outside (started env s) = outside w"
    and "handles (started env s) = handles w"
  using init_Inr[OF assms] by auto

lemma job_crash:
  assumes "DenoiseWorker_init env i out a (w\<lparr>events := [], calls := []\<rparr>) = Inl (e, w')"
  shows "events w' = []" and "outside w' = outside w" and "handles w' = handles w"
    and "\<forall>x\<in>set (calls w'). x = Mkdtemp \<or> (\<exists>c. x = Subprocess_remux c)"
  using init_Inl[OF assms] by auto

lemma job_unavailable:
  assumes "DenoiseWorker_init env i out a (w\<lparr>events := [], calls := []\<rparr>) = Inr s"
  shows "events (world.truncate (if stop_before env 0 then stop s else s)) = []"
    and "outside (world.truncate (if stop_before env 0 then stop s else s)) = outside w"
    and "handles (world.truncate (if stop_before env 0 then stop s else s)) = handles w"
    and "\<forall>x\<in>set (calls (world.truncate (if stop_before env 0 then stop s else s))).
           x = Mkdtemp \<or> (\<exists>c. x = Subprocess_remux c)"
  using init_Inr[OF assms] by (auto simp add: stop_def)

lemma job_run_directory:
  assumes init: "DenoiseWorker_init env i out a (w\<lparr>events := [], calls := []\<rparr>) = Inr s"
    and av: "DEEPFILTER_AVAILABLE env"
    and mk: "mkdtemp (names s) (tmp s) = Some (d, rest)"
    and d: "d \<noteq> []"
    and ok: "\<not> listdir_fails env" "\<forall>f. \<not> remove_fails env d f" "\<not> rmdir_fails env"
  shows "tmp s d = None"
    and "tmp (snd (job env i out a w)) d = None"
    and "length (filter (\<lambda>x. x = Mkdtemp) (calls (snd (job env i out a w)))) = 2"
proof -
  show "tmp s d = None"
    using mk by (rule mkdtemp_fresh)
  obtain S x where out: "outcome env (started env s) x S"
    and j: "job env i out a w = (x, world.truncate (tidy env (finally_close env S)))"
    using init av by (cases rule: job_cases[of env i out a w]) auto
  have mk': "mkdtemp (names (started env s)) (tmp (started env s)) = Some (d, rest)"
    using mk by simp
  have td: "temp_dir S = Some d"
    using outcome_tmp(2)[OF out _ mk'] by simp
  have t: "tidy env (finally_close env S) = cleanup env d (finally_close env S)"
    using td d by (simp add: tidy_def)
  show "tmp (snd (job env i out a w)) d = None"
    using ok by (simp add: j t cleanup_removes)
  obtain xs where xs: "calls (tidy env (finally_close env S)) = calls S @ xs"
    "list_all housekeeping xs"
    using end_calls by blast
  obtain exe where "calls (started env s) = [Mkdtemp, Subprocess_remux (remux_cmd exe i (input_video s))]"
    using worker_start(4)[OF init] by blast
  then have "length (filter (\<lambda>x. x = Mkdtemp) (calls S)) = 2"
    using outcome_tmp(3)[OF out] by simp
  then show "length (filter (\<lambda>x. x = Mkdtemp) (calls (snd (job env i out a w)))) = 2"
    using xs by (simp add: j housekeeping_not_mkdtemp)
qed

lemma worker0_init:
  "DenoiseWorker_init env_ok ''/home/u/clip.mp4'' ''/home/u/out.mp4'' None
     (world0\<lparr>events := [], calls := []\<rparr>) = Inr worker0"
  by (simp add: DenoiseWorker_init_def remux_def remux_cmd_def create_file_def os_path_join_def
      Let_def env_defs)

lemma job_events:
  "progress_values (events (snd (job env i out a w))) =
     take (length (progress_values (events (snd (job env i out a w))))) checkpoints"
  "events (snd (job env i out a w)) =
     map Progress (progress_values (events (snd (job env i out a w)))) @
     terminal_events (events (snd (job env i out a w)))"
  "length (terminal_events (events (snd (job env i out a w)))) \<le> 2"
  "error_signal env \<noteq> [] \<Longrightarrow> length (terminal_events (events (snd (job env i out a w)))) \<le> 1"
  "Finished p m \<in> set (events (snd (job env i out a w))) \<Longrightarrow>
     terminal_events (events (snd (job env i out a w))) = [Finished p m] \<and>
     progress_values (events (snd (job env i out a w))) = checkpoints"
proof -
  have "(progress_values (events (snd (job env i out a w))) =
     take (length (progress_values (events (snd (job env i out a w))))) checkpoints) \<and>
   (events (snd (job env i out a w)) =
     map Progress (progress_values (events (snd (job env i out a w)))) @
     terminal_events (events (snd (job env i out a w)))) \<and>
   length (terminal_events (events (snd (job env i out a w)))) \<le> 2 \<and>
   (error_signal env \<noteq> [] \<longrightarrow> length (terminal_events (events (snd (job env i out a w)))) \<le> 1) \<and>
   (Finished p m \<in> set (events (snd (job env i out a w))) \<longrightarrow>
     terminal_events (events (snd (job env i out a w))) = [Finished p m] \<and>
     progress_values (events (snd (job env i out a w))) = checkpoints)"
  proof (cases rule: job_cases[of env i out a w])
    case (crash e w')
    then show ?thesis
      using job_crash(1)[OF crash(1)] by (simp add: terminal_events_def)
  next
    case (unavailable s)
    then show ?thesis
      using job_unavailable(1)[OF unavailable(1)] by (simp add: terminal_events_def)
  next
    case (ran s S x)
    have e: "events (snd (job env i out a w)) = events S"
      by (simp add: ran(4))
    show ?thesis
      unfolding e using outcome_events[OF ran(3) worker_start(1)[OF ran(1)]] by blast
  qed
  then show
    "progress_values (events (snd (job env i out a w))) =
       take (length (progress_values (events (snd (job env i out a w))))) checkpoints"
    "events (snd (job env i out a w)) =
       map Progress (progress_values (events (snd (job env i out a w)))) @
       terminal_events (events (snd (job env i out a w)))"
    "length (terminal_events (events (snd (job env i out a w)))) \<le> 2"
    "error_signal env \<noteq> [] \<Longrightarrow> length (terminal_events (events (snd (job env i out a w)))) \<le> 1"
    "Finished p m \<in> set (events (snd (job env i out a w))) \<Longrightarrow>
       terminal_events (events (snd (job env i out a w))) = [Finished p m] \<and>
       progress_values (events (snd (job env i out a w))) = checkpoints"
    by blast+
qed

lemma job_ran_world:
  assumes "job env i out a w = (e, world.truncate (tidy env (finally_close env S)))"
  shows "events (snd (job env i out a w)) = events S"
    and "outside (snd (job env i out a w)) = outside S"
    and "\<exists>xs. calls (snd (job env i out a w)) = calls S @ xs \<and> list_all housekeeping xs"
  using end_calls[of env S] by (simp_all add: assms)

lemma sanitizer_calls_unguarded:
  "\<forall>x\<in>set cs. x = Mkdtemp \<or> (\<exists>c. x = Subprocess_remux c) \<Longrightarrow> x \<in> set cs \<Longrightarrow> guard x = None"
  by auto

lemma job_guarded_call:
  assumes x: "x \<in> set (calls (snd (job env i out a w)))" and g: "guard x = Some k"
  obtains s S e where
    "DenoiseWorker_init env i out a (w\<lparr>events := [], calls := []\<rparr>) = Inr s"
    "DEEPFILTER_AVAILABLE env"
    "outcome env (started env s) e S"
    "job env i out a w = (e, world.truncate (tidy env (finally_close env S)))"
    "x \<in> set (calls S)"
proof (cases rule: job_cases[of env i out a w])
  case (crash e w')
  with x g job_crash(4)[OF crash(1)] have False
    by auto
  then show ?thesis ..
next
  case (unavailable s)
  with x g job_unavailable(4)[OF unavailable(1)] have False
    by auto
  then show ?thesis ..
next
  case (ran s S e)
  obtain xs where xs: "calls (snd (job env i out a w)) = calls S @ xs" "list_all housekeeping xs"
    using job_ran_world(3)[OF ran(4)] by blast
  have "x \<notin> set xs"
    using housekeeping_guard[OF xs(2)] g by auto
  with x xs have "x \<in> set (calls S)"
    by simp
  with ran that show ?thesis
    by blast
qed

lemma job_inference:
  assumes x: "Enhance x \<in> set (calls (snd (job env i out a w)))"
  shows "x = a"
    and "enhance_result env a = EnhanceRaises m \<Longrightarrow>
           events (snd (job env i out a w)) =
             [Progress 5, Progress 20, Progress 40] @ guarded env (msg_unexpected m) \<and>
           (\<forall>p. SaveAudio p \<notin> set (calls (snd (job env i out a w)))) \<and>
           (\<forall>c. Subprocess_run c \<notin> set (calls (snd (job env i out a w))))"
    and "enhance_result env a = EnhanceReturns None \<Longrightarrow>
           (\<forall>p. SaveAudio p \<notin> set (calls (snd (job env i out a w)))) \<and>
           (\<forall>c. Subprocess_run c \<notin> set (calls (snd (job env i out a w)))) \<and>
           (\<not> stop_before env 3 \<longrightarrow>
              events (snd (job env i out a w)) =
                [Progress 5, Progress 20, Progress 40, Progress 70, Error msg_no_data])"
    and "enhance_result env a = EnhanceReturns (Some b) \<Longrightarrow> \<not> stop_before env 3 \<Longrightarrow>
         save_audio_result env b = Some m \<Longrightarrow>
           events (snd (job env i out a w)) =
             [Progress 5, Progress 20, Progress 40, Progress 70, Error (msg_save_failed m)] \<and>
           (\<forall>c. Subprocess_run c \<notin> set (calls (snd (job env i out a w))))"
proof -
  have g: "guard (Enhance x) = Some 2"
    by simp
  from x g obtain s S e where init: "DenoiseWorker_init env i out a (w\<lparr>events := [], calls := []\<rparr>) = Inr s"
    and out: "outcome env (started env s) e S"
    and j: "job env i out a w = (e, world.truncate (tidy env (finally_close env S)))"
    and xs: "Enhance x \<in> set (calls S)"
    by (rule job_guarded_call)
  obtain ys where ys: "calls (snd (job env i out a w)) = calls S @ ys" "list_all housekeeping ys"
    using job_ran_world(3)[OF j] by blast
  have mem: "y \<in> set (calls (snd (job env i out a w))) \<longleftrightarrow> y \<in> set (calls S)"
    if "guard y \<noteq> None" for y
    using that ys housekeeping_guard[OF ys(2)] by auto
  have save: "SaveAudio p \<notin> set (calls (snd (job env i out a w)))"
    if "\<forall>y\<in>set (calls S). guard y \<noteq> Some 3 \<and> guard y \<noteq> Some 4" for p
    using that mem[of "SaveAudio p"] by auto
  have remux: "Subprocess_run c \<notin> set (calls (snd (job env i out a w)))"
    if "\<forall>y\<in>set (calls S). guard y \<noteq> Some 4" for c
    using that mem[of "Subprocess_run c"] by auto
  have ev: "events (snd (job env i out a w)) = events S"
    by (rule job_ran_world(1)[OF j])
  have e0: "events (started env s) = []" and g0: "\<forall>x\<in>set (calls (started env s)). guard x = None"
    using worker_start(1,2)[OF init] by blast+
  note inf = outcome_inference[OF out e0 g0 xs]
  show xa: "x = a"
    using inf(1) worker_start(7)[OF init] by simp
  show "enhance_result env a = EnhanceRaises m \<Longrightarrow>
           events (snd (job env i out a w)) =
             [Progress 5, Progress 20, Progress 40] @ guarded env (msg_unexpected m) \<and>
           (\<forall>p. SaveAudio p \<notin> set (calls (snd (job env i out a w)))) \<and>
           (\<forall>c. Subprocess_run c \<notin> set (calls (snd (job env i out a w))))"
    using inf(2)[of m] save remux unfolding xa ev by blast
  show "enhance_result env a = EnhanceReturns None \<Longrightarrow>
           (\<forall>p. SaveAudio p \<notin> set (calls (snd (job env i out a w)))) \<and>
           (\<forall>c. Subprocess_run c \<notin> set (calls (snd (job env i out a w)))) \<and>
           (\<not> stop_before env 3 \<longrightarrow>
              events (snd (job env i out a w)) =
                [Progress 5, Progress 20, Progress 40, Progress 70, Error msg_no_data])"
    using inf(3) save remux unfolding xa ev by blast
  show "enhance_result env a = EnhanceReturns (Some b) \<Longrightarrow> \<not> stop_before env 3 \<Longrightarrow>
         save_audio_result env b = Some m \<Longrightarrow>
           events (snd (job env i out a w)) =
             [Progress 5, Progress 20, Progress 40, Progress 70, Error (msg_save_failed m)] \<and>
           (\<forall>c. Subprocess_run c \<notin> set (calls (snd (job env i out a w))))"
    using inf(4)[of b m] remux unfolding xa ev by blast
qed

section \<open>The claims\<close>

text \<open>
  C3. The claim: when the sanitizer's external tool exits non-zero, the job fails with an
  error event that carries the tool's diagnostic output, and the fault does not leave the
  pipeline as a crash. The code at that input: \<^verbatim>\<open>remux\<close> runs inside \<^verbatim>\<open>__init__\<close> with
  \<^verbatim>\<open>check=True\<close> and no handler, so \<open>CalledProcessError\<close> leaves the constructor; no
  event is emitted, the exception carries no captured output, and the directory made by
  \<^verbatim>\<open>remux\<close> stays behind. The final FFmpeg call of \<^verbatim>\<open>run\<close> does catch the same
  exception and reports it.
\<close>

theorem sanitizer_failure_escapes:
  "job env_sanitize_fails ''/home/u/clip.mp4'' ''/home/u/out.mp4'' None world0 =
     (Some (CalledProcessError 1 None None),
      world0\<lparr>tmp := [''/tmp/a'' \<mapsto> [''remux_clip.mp4'']], names := [''/tmp/b'', ''/tmp/c''],
             calls := [Mkdtemp, Subprocess_remux
               [''/usr/bin/ffmpeg'', ''-y'', ''-ignore_editlist'', ''1'', ''-i'',
                ''/home/u/clip.mp4'', ''-map'', ''0:v'', ''-map'', ''0:a?'', ''-c'', ''copy'',
                ''-movflags'', ''+faststart'', ''/tmp/a/remux_clip.mp4'']]\<rparr>)"
  by (simp add: job_defs env_defs)


text \<open>
  C2. The claim: each job has exactly one temp directory, shared with no other job, and
  after any terminal outcome no file and no temp directory made for the job exists.
  As stated it fails: the job calls \<^verbatim>\<open>mkdtemp\<close> twice, once in \<^verbatim>\<open>remux\<close> and once
  in \<^verbatim>\<open>run\<close>; and the cleanup is best effort, so a file whose removal fails stays
  with the directory of the run.
\<close>

theorem temp_files_survive_job:
  "length (filter (\<lambda>x. x = Mkdtemp)
     (calls (snd (job env_ok ''/home/u/clip.mp4'' ''/home/u/out.mp4'' None world0)))) = 2 \<and>
   tmp (snd (job env_remove_fails ''/home/u/clip.mp4'' ''/home/u/out.mp4'' None world0)) ''/tmp/b''
     = Some [''temp_original_audio.wav'']"
  by (simp add: job_defs env_defs)

text \<open>
  C2 as amended: a run that gets past the dependency check and whose \<^verbatim>\<open>mkdtemp\<close>
  succeeds makes one temp directory of its own, which did not exist before (so it is shared
  with no other job and differs from the sanitizer's directory); the job calls
  \<^verbatim>\<open>mkdtemp\<close> twice in all. When \<^verbatim>\<open>run\<close> ends, after any outcome, and no
  \<^verbatim>\<open>os.listdir\<close>, \<^verbatim>\<open>os.remove\<close> or \<^verbatim>\<open>os.rmdir\<close> of the cleanup has failed, the
  directory of the run and every file in it are gone.
\<close>

theorem run_directory_removed:
  assumes "DenoiseWorker_init env i out a (w\<lparr>events := [], calls := []\<rparr>) = Inr s"
    and "DEEPFILTER_AVAILABLE env"
    and "mkdtemp (names s) (tmp s) = Some (d, rest)"
    and "d \<noteq> []"
    and "\<not> listdir_fails env" and "\<forall>f. \<not> remove_fails env d f" and "\<not> rmdir_fails env"
  shows "tmp s d = None \<and>
         tmp (snd (job env i out a w)) d = None \<and>
         length (filter (\<lambda>x. x = Mkdtemp) (calls (snd (job env i out a w)))) = 2"
  using job_run_directory[OF assms] by simp

theorem run_directory_removed_witness:
  "tmp worker0 ''/tmp/b'' = None \<and>
   tmp (snd (job env_ok ''/home/u/clip.mp4'' ''/home/u/out.mp4'' None world0)) ''/tmp/b'' = None \<and>
   length (filter (\<lambda>x. x = Mkdtemp)
     (calls (snd (job env_ok ''/home/u/clip.mp4'' ''/home/u/out.mp4'' None world0)))) = 2"
proof -
  have "mkdtemp (names worker0) (tmp worker0) = Some (''/tmp/b'', [''/tmp/c''])"
    by (simp add: worker0_def)
  from run_directory_removed[OF worker0_init _ this]
  show ?thesis by (simp add: env_ok_def)
qed




text \<open>
  C1. The claim: every job emits exactly one terminal event (a completion after progress
  100, an error, or a cancelled event), no run ends with zero terminal events, and no
  fault escapes uncaught. As stated it fails: the worker has no cancelled signal, and a job
  stopped at a poll of \<^verbatim>\<open>_is_running\<close> returns without emitting anything more; and the
  outermost handler is \<^verbatim>\<open>except Exception\<close>, so the \<open>SystemExit\<close> that \<^verbatim>\<open>init_df\<close>
  raises on a missing checkpoint leaves \<^verbatim>\<open>run\<close>.
\<close>

theorem cancelled_job_has_no_terminal_event:
  "fst (job env_stop_1 ''/home/u/clip.mp4'' ''/home/u/out.mp4'' None world0) = None \<and>
   events (snd (job env_stop_1 ''/home/u/clip.mp4'' ''/home/u/out.mp4'' None world0))
     = [Progress 5, Progress 20] \<and>
   terminal_events (events (snd (job env_stop_1 ''/home/u/clip.mp4'' ''/home/u/out.mp4'' None world0)))
     = [] \<and>
   fst (job env_init_df_exits ''/home/u/clip.mp4'' ''/home/u/out.mp4'' None world0)
     = Some (SystemExit 1) \<and>
   events (snd (job env_init_df_exits ''/home/u/clip.mp4'' ''/home/u/out.mp4'' None world0))
     = [Progress 5, Progress 20]"
  by (simp add: job_defs env_defs terminal_events_def)

text \<open>
  C1 as amended, for every job whose worker was constructed and whose dependencies were
  imported. The only exception that can leave \<^verbatim>\<open>run\<close> is the \<open>SystemExit\<close> of
  \<^verbatim>\<open>init_df\<close>. The events of the job are its progress events followed by its terminal
  events. A \<^verbatim>\<open>finished\<close> event is emitted only after all six progress values and is
  then the only terminal event. A job emits exactly one terminal event when \<^verbatim>\<open>stop()\<close>
  is never called, every call that has no handler of its own returns (\<^verbatim>\<open>mkdtemp\<close>,
  the \<^verbatim>\<open>close()\<close> after the extraction, \<^verbatim>\<open>init_df\<close>, \<^verbatim>\<open>load_audio\<close>,
  \<^verbatim>\<open>enhance\<close>), a \<^verbatim>\<open>write_audiofile\<close> that returns has made its file, and
  \<^verbatim>\<open>self.error.signal\<close> is the non-empty string it is for a PyQt signal. A job
  stopped at a poll emits no terminal event: the poll that follows progress 20, 40, 70 or
  80 returns when \<^verbatim>\<open>stop()\<close> has been called before it.
\<close>

theorem terminal_events_of_job:
  assumes "DenoiseWorker_init env i out a (w\<lparr>events := [], calls := []\<rparr>) = Inr s"
    and "DEEPFILTER_AVAILABLE env"
  shows "(fst (job env i out a w) = None \<or>
            (\<exists>rc. init_df_result env = InitExits rc \<and>
                  fst (job env i out a w) = Some (SystemExit rc))) \<and>
         events (snd (job env i out a w)) =
           map Progress (progress_values (events (snd (job env i out a w)))) @
           terminal_events (events (snd (job env i out a w))) \<and>
         (\<forall>p m. Finished p m \<in> set (events (snd (job env i out a w))) \<longrightarrow>
            terminal_events (events (snd (job env i out a w))) = [Finished p m] \<and>
            progress_values (events (snd (job env i out a w))) = checkpoints) \<and>
         ((\<forall>k. \<not> stop_before env k) \<and> error_signal env \<noteq> [] \<and>
          mkdtemp (names s) (tmp s) \<noteq> None \<and> close_result env = None \<and>
          (write_audiofile_result env = None \<longrightarrow> write_audiofile_creates env) \<and>
          init_df_result env = InitOk \<and> load_audio_result env = None \<and>
          (\<forall>m. enhance_result env a \<noteq> EnhanceRaises m) \<longrightarrow>
            length (terminal_events (events (snd (job env i out a w)))) = 1) \<and>
         ((stop_before env 0 \<or> stop_before env 1) \<and>
          Progress 20 \<in> set (events (snd (job env i out a w))) \<and>
          close_result env = None \<and> write_audiofile_creates env \<longrightarrow>
            terminal_events (events (snd (job env i out a w))) = []) \<and>
         (stop_before env 2 \<and> Progress 40 \<in> set (events (snd (job env i out a w))) \<longrightarrow>
            terminal_events (events (snd (job env i out a w))) = []) \<and>
         (stop_before env 3 \<and> Progress 70 \<in> set (events (snd (job env i out a w))) \<longrightarrow>
            terminal_events (events (snd (job env i out a w))) = []) \<and>
         (stop_before env 4 \<and> Progress 80 \<in> set (events (snd (job env i out a w))) \<longrightarrow>
            terminal_events (events (snd (job env i out a w))) = [])"
proof -
  let ?E = "events (snd (job env i out a w))"
  obtain S x where out: "outcome env (started env s) x S"
    and j: "job env i out a w = (x, world.truncate (tidy env (finally_close env S)))"
    using assms by (cases rule: job_cases[of env i out a w]) auto
  have ev: "?E = events S" and fs: "fst (job env i out a w) = x"
    by (simp_all add: j)
  have e0: "events (started env s) = []" and a0: "atten_lim_db (started env s) = a"
    using worker_start(1,7)[OF assms(1)] by blast+
  have run: "is_running (started env s) = (\<not> stop_before env 0)"
    using init_Inr(7)[OF assms(1)] by simp
  have esc: "fst (job env i out a w) = None \<or>
            (\<exists>rc. init_df_result env = InitExits rc \<and>
                  fst (job env i out a w) = Some (SystemExit rc))"
    unfolding fs by (rule outcome_escape[OF out])
  have one: "(\<forall>k. \<not> stop_before env k) \<and> error_signal env \<noteq> [] \<and>
          mkdtemp (names s) (tmp s) \<noteq> None \<and> close_result env = None \<and>
          (write_audiofile_result env = None \<longrightarrow> write_audiofile_creates env) \<and>
          init_df_result env = InitOk \<and> load_audio_result env = None \<and>
          (\<forall>m. enhance_result env a \<noteq> EnhanceRaises m) \<longrightarrow>
            length (terminal_events ?E) = 1"
  proof (rule impI)
    assume h: "(\<forall>k. \<not> stop_before env k) \<and> error_signal env \<noteq> [] \<and>
          mkdtemp (names s) (tmp s) \<noteq> None \<and> close_result env = None \<and>
          (write_audiofile_result env = None \<longrightarrow> write_audiofile_creates env) \<and>
          init_df_result env = InitOk \<and> load_audio_result env = None \<and>
          (\<forall>m. enhance_result env a \<noteq> EnhanceRaises m)"
    have "length (terminal_events (events S)) = 1"
    proof (rule outcome_one_terminal[OF out e0])
      show "is_running (started env s)" using h run by simp
      show "\<forall>k. \<not> stop_before env k" using h by simp
      show "error_signal env \<noteq> []" using h by simp
      show "mkdtemp (names (started env s)) (tmp (started env s)) \<noteq> None" using h by simp
      show "close_result env = None" using h by simp
      show "write_audiofile_result env = None \<longrightarrow> write_audiofile_creates env" using h by simp
      show "init_df_result env = InitOk" using h by simp
      show "load_audio_result env = None" using h by simp
      show "\<forall>m. enhance_result env (atten_lim_db (started env s)) \<noteq> EnhanceRaises m"
        using h a0 by simp
    qed
    then show "length (terminal_events ?E) = 1"
      by (simp add: ev)
  qed
  have s1: "(stop_before env 0 \<or> stop_before env 1) \<and> Progress 20 \<in> set ?E \<and>
          close_result env = None \<and> write_audiofile_creates env \<longrightarrow>
            terminal_events ?E = []"
  proof (rule impI)
    assume h: "(stop_before env 0 \<or> stop_before env 1) \<and> Progress 20 \<in> set ?E \<and>
          close_result env = None \<and> write_audiofile_creates env"
    have "terminal_events (events S) = []"
    proof (rule outcome_stopped(1)[OF out e0])
      show "stop_before env 1 \<or> \<not> is_running (started env s)" using h run by auto
      show "Progress 20 \<in> set (events S)" using h by (simp add: ev)
      show "close_result env = None" using h by simp
      show "write_audiofile_creates env" using h by simp
    qed
    then show "terminal_events ?E = []"
      by (simp add: ev)
  qed
  have s2: "stop_before env 2 \<and> Progress 40 \<in> set ?E \<longrightarrow> terminal_events ?E = []"
    using outcome_stopped(2)[OF out e0] by (simp add: ev)
  have s3: "stop_before env 3 \<and> Progress 70 \<in> set ?E \<longrightarrow> terminal_events ?E = []"
    using outcome_stopped(3)[OF out e0] by (simp add: ev)
  have s4: "stop_before env 4 \<and> Progress 80 \<in> set ?E \<longrightarrow> terminal_events ?E = []"
    using outcome_stopped(4)[OF out e0] by (simp add: ev)
  have ord: "?E = map Progress (progress_values ?E) @ terminal_events ?E"
    by (rule job_events(2))
  have fin: "\<forall>p m. Finished p m \<in> set ?E \<longrightarrow>
      terminal_events ?E = [Finished p m] \<and> progress_values ?E = checkpoints"
    using job_events(5)[where env=env and i=i and out=out and a=a and w=w] by blast
  show ?thesis
    by (intro conjI esc ord fin one s1 s2 s3 s4)
qed

theorem terminal_events_of_job_witness:
  "fst (job env_ok ''/home/u/clip.mp4'' ''/home/u/out.mp4'' None world0) = None \<and>
   length (terminal_events
     (events (snd (job env_ok ''/home/u/clip.mp4'' ''/home/u/out.mp4'' None world0)))) = 1 \<and>
   terminal_events (events (snd (job env_stop_1 ''/home/u/clip.mp4'' ''/home/u/out.mp4'' None world0)))
     = []"
proof -
  have av: "DEEPFILTER_AVAILABLE env_ok" "DEEPFILTER_AVAILABLE env_stop_1"
    by (simp_all add: env_defs)
  have init: "DenoiseWorker_init env_stop_1 ''/home/u/clip.mp4'' ''/home/u/out.mp4'' None
     (world0\<lparr>events := [], calls := []\<rparr>) = Inr worker0"
    by (simp add: DenoiseWorker_init_def remux_def remux_cmd_def create_file_def os_path_join_def
      Let_def env_defs)
  have ok: "(\<forall>k. \<not> stop_before env_ok k) \<and> error_signal env_ok \<noteq> [] \<and>
          mkdtemp (names worker0) (tmp worker0) \<noteq> None \<and> close_result env_ok = None \<and>
          (write_audiofile_result env_ok = None \<longrightarrow> write_audiofile_creates env_ok) \<and>
          init_df_result env_ok = InitOk \<and> load_audio_result env_ok = None \<and>
          (\<forall>m. enhance_result env_ok None \<noteq> EnhanceRaises m)"
    and noexit: "\<forall>rc. init_df_result env_ok \<noteq> InitExits rc"
    by (simp_all add: env_defs)
  have st: "(stop_before env_stop_1 0 \<or> stop_before env_stop_1 1) \<and>
      Progress 20 \<in> set (events (snd (job env_stop_1 ''/home/u/clip.mp4'' ''/home/u/out.mp4'' None world0))) \<and>
      close_result env_stop_1 = None \<and> write_audiofile_creates env_stop_1"
    by (simp add: job_defs env_defs)
  note t1 = terminal_events_of_job[OF worker0_init av(1)]
  note t2 = terminal_events_of_job[OF init av(2)]
  have a: "fst (job env_ok ''/home/u/clip.mp4'' ''/home/u/out.mp4'' None world0) = None"
    using t1[THEN conjunct1] noexit by blast
  have b: "length (terminal_events
     (events (snd (job env_ok ''/home/u/clip.mp4'' ''/home/u/out.mp4'' None world0)))) = 1"
    using t1[THEN conjunct2, THEN conjunct2, THEN conjunct2, THEN conjunct1] ok by (rule mp)
  have c: "terminal_events
     (events (snd (job env_stop_1 ''/home/u/clip.mp4'' ''/home/u/out.mp4'' None world0))) = []"
    using t2[THEN conjunct2, THEN conjunct2, THEN conjunct2, THEN conjunct2, THEN conjunct1] st
    by (rule mp)
  show ?thesis
    by (intro conjI a b c)
qed


text \<open>
  C4. The claim: before each of the five stages the cancellation flag is checked, and a
  cancellation requested before a stage starts keeps that stage and all later ones from
  running. As stated it fails: \<^verbatim>\<open>run\<close> polls the flag four times, and neither the
  sanitizer (in the constructor) nor the audio extraction has a poll before it. With
  \<^verbatim>\<open>stop()\<close> called before \<^verbatim>\<open>run\<close> starts, the clip is still opened and its audio
  still extracted.
\<close>

theorem stop_before_run_still_extracts:
  "stop_before env_stop_0 0 \<and>
   calls (snd (job env_stop_0 ''/home/u/clip.mp4'' ''/home/u/out.mp4'' None world0)) =
     calls worker0 @
     [Mkdtemp, OpenClip ''/tmp/a/remux_clip.mp4'',
      WriteAudiofile ''/tmp/b/temp_original_audio.wav'', CloseClip,
      Listdir ''/tmp/b'', Remove ''/tmp/b/temp_original_audio.wav'', Rmdir ''/tmp/b''] \<and>
   events (snd (job env_stop_0 ''/home/u/clip.mp4'' ''/home/u/out.mp4'' None world0)) =
     [Progress 5, Progress 20]"
  by (simp add: job_defs env_defs)

text \<open>
  C4 as amended: the flag is polled before the model and the audio are loaded, before
  inference, before the enhanced audio is saved and before the final FFmpeg call. When
  \<^verbatim>\<open>stop()\<close> has been called before poll \<open>j\<close>, no call that stands behind poll \<open>j\<close> or a
  later poll is made. The cleanup of the run's temp directory still takes place: the
  directory is gone when \<^verbatim>\<open>run\<close> returns, provided no \<^verbatim>\<open>os.listdir\<close>, \<^verbatim>\<open>os.remove\<close> or
  \<^verbatim>\<open>os.rmdir\<close> failed.
\<close>

theorem stop_prevents_later_stages:
  assumes "stop_before env j"
  shows "(\<forall>x\<in>set (calls (snd (job env i out a w))). \<forall>k. guard x = Some k \<longrightarrow> k < j) \<and>
         (\<forall>s d rest.
            DenoiseWorker_init env i out a (w\<lparr>events := [], calls := []\<rparr>) = Inr s \<and>
            DEEPFILTER_AVAILABLE env \<and> mkdtemp (names s) (tmp s) = Some (d, rest) \<and> d \<noteq> [] \<and>
            \<not> listdir_fails env \<and> (\<forall>f. \<not> remove_fails env d f) \<and> \<not> rmdir_fails env \<longrightarrow>
            tmp (snd (job env i out a w)) d = None)"
proof (intro conjI ballI allI impI)
  fix x k
  assume x: "x \<in> set (calls (snd (job env i out a w)))" and g: "guard x = Some k"
  from x g obtain s S e where s: "outcome env (started env s) e S" "x \<in> set (calls S)"
    and init: "DenoiseWorker_init env i out a (w\<lparr>events := [], calls := []\<rparr>) = Inr s"
    by (rule job_guarded_call)
  have facts: "is_running (started env s) \<and> 1 \<le> k \<and> k \<le> 4 \<and> \<not> stop_before env 1 \<and>
         (2 \<le> k \<longrightarrow> \<not> stop_before env 2) \<and> (3 \<le> k \<longrightarrow> \<not> stop_before env 3) \<and>
         (4 \<le> k \<longrightarrow> \<not> stop_before env 4)"
    using outcome_guard[OF s(1) worker_start(2)[OF init] s(2) g] .
  then have "j = 0 \<or> j = 1 \<or> j = 2 \<or> j = 3 \<or> j = 4 \<or> k < j"
    by arith
  with facts assms show "k < j"
    by auto
next
  fix s d rest
  assume "DenoiseWorker_init env i out a (w\<lparr>events := [], calls := []\<rparr>) = Inr s \<and>
            DEEPFILTER_AVAILABLE env \<and> mkdtemp (names s) (tmp s) = Some (d, rest) \<and> d \<noteq> [] \<and>
            \<not> listdir_fails env \<and> (\<forall>f. \<not> remove_fails env d f) \<and> \<not> rmdir_fails env"
  then show "tmp (snd (job env i out a w)) d = None"
    using job_run_directory(2)[of env i out a w s d rest] by blast
qed

theorem stop_prevents_later_stages_witness:
  "stop_before env_stop_1 1 \<and>
   InitDf ''/app/models/DeepFilterNet3''
     \<notin> set (calls (snd (job env_stop_1 ''/home/u/clip.mp4'' ''/home/u/out.mp4'' None world0))) \<and>
   tmp (snd (job env_stop_1 ''/home/u/clip.mp4'' ''/home/u/out.mp4'' None world0)) ''/tmp/b'' = None"
proof -
  have st: "stop_before env_stop_1 1"
    by (simp add: env_defs)
  have init: "DenoiseWorker_init env_stop_1 ''/home/u/clip.mp4'' ''/home/u/out.mp4'' None
     (world0\<lparr>events := [], calls := []\<rparr>) = Inr worker0"
    by (simp add: DenoiseWorker_init_def remux_def remux_cmd_def create_file_def os_path_join_def
      Let_def env_defs)
  have rest: "DEEPFILTER_AVAILABLE env_stop_1 \<and>
      mkdtemp (names worker0) (tmp worker0) = Some (''/tmp/b'', [''/tmp/c'']) \<and> ''/tmp/b'' \<noteq> [] \<and>
      \<not> listdir_fails env_stop_1 \<and> (\<forall>f. \<not> remove_fails env_stop_1 ''/tmp/b'' f) \<and>
      \<not> rmdir_fails env_stop_1"
    by (simp add: env_defs)
  note inst = stop_prevents_later_stages[OF st, of "''/home/u/clip.mp4''" "''/home/u/out.mp4''" None world0]
  have guarded_calls: "\<forall>x\<in>set (calls (snd (job env_stop_1 ''/home/u/clip.mp4'' ''/home/u/out.mp4'' None world0))).
      \<forall>k. guard x = Some k \<longrightarrow> k < 1"
    using inst by blast
  have no_load: "InitDf ''/app/models/DeepFilterNet3''
     \<notin> set (calls (snd (job env_stop_1 ''/home/u/clip.mp4'' ''/home/u/out.mp4'' None world0)))"
  proof
    assume m: "InitDf ''/app/models/DeepFilterNet3''
      \<in> set (calls (snd (job env_stop_1 ''/home/u/clip.mp4'' ''/home/u/out.mp4'' None world0)))"
    have "guard (InitDf ''/app/models/DeepFilterNet3'') = Some 1"
      by simp
    with guarded_calls m have "(1::nat) < 1"
      by blast
    then show False
      by simp
  qed
  have "tmp (snd (job env_stop_1 ''/home/u/clip.mp4'' ''/home/u/out.mp4'' None world0)) ''/tmp/b'' = None"
    using inst init rest by blast
  with st no_load show ?thesis
    by blast
qed

text \<open>
  C5. The claim: an input without an audio stream ends in an outcome of its own, presented
  as nothing to denoise and not as a failure, and no enhancement, persist or remux step
  is made. As stated it fails: the worker reports the missing audio track on the same
  \<^verbatim>\<open>error\<close> signal as every failure (here next to a clip that cannot be opened), and
  the slot connected to that signal shows every message in the same critical box titled
  \<^verbatim>\<open>Denoising Error\<close>.
\<close>

theorem no_audio_is_reported_as_an_error:
  "events (snd (job env_no_audio ''/home/u/clip.mp4'' ''/home/u/out.mp4'' None world0)) =
     [Progress 5, Error ''Input video has no audio track.''] \<and>
   events (snd (job env_open_raises ''/home/u/clip.mp4'' ''/home/u/out.mp4'' None world0)) =
     [Progress 5, Error (''Failed to open input video:'' @ nl @ ''could not read'')] \<and>
   denoising_error ''Input video has no audio track.'' =
     (''Error: Input video has no audio track.'',
      Critical ''Denoising Error'' ''Input video has no audio track.'')"
  by (simp add: job_defs env_defs msg_no_audio_def msg_open_failed_def denoising_error_def)

text \<open>
  C5 as amended: for an input whose clip opens and has no audio track, \<^verbatim>\<open>run\<close> returns
  without raising, the job's events are progress 5 and then an error event with the
  message of its own \<^verbatim>\<open>Input video has no audio track.\<close> (followed by a second error
  only where \<^verbatim>\<open>self.error.signal\<close> is falsy), which the interface shows as it shows
  every error; no call of the enhancement, persist or remux stage is made, and nothing is
  written outside the temp directories.
\<close>

theorem no_audio_track_outcome:
  assumes init: "DenoiseWorker_init env i out a (w\<lparr>events := [], calls := []\<rparr>) = Inr s"
    and av: "DEEPFILTER_AVAILABLE env"
    and mk: "mkdtemp (names s) (tmp s) = Some (d, rest)"
    and vc: "VideoFileClip_result env = Opened c"
    and au: "audio c = None"
  shows "fst (job env i out a w) = None \<and>
         events (snd (job env i out a w)) =
           [Progress 5, Error msg_no_audio] @
           guarded env (case close_result env of None \<Rightarrow> msg_no_output
                        | Some m \<Rightarrow> msg_unexpected m) \<and>
         denoising_error msg_no_audio =
           (''Error: '' @ msg_no_audio, Critical ''Denoising Error'' msg_no_audio) \<and>
         (\<forall>x\<in>set (calls (snd (job env i out a w))). guard x = None) \<and>
         outside (snd (job env i out a w)) = outside w"
proof -
  obtain S x where out: "outcome env (started env s) x S"
    and j: "job env i out a w = (x, world.truncate (tidy env (finally_close env S)))"
    using init av by (cases rule: job_cases[of env i out a w]) auto
  have mk': "mkdtemp (names (started env s)) (tmp (started env s)) = Some (d, rest)"
    using mk by simp
  have e0: "events (started env s) = []" and g0: "\<forall>x\<in>set (calls (started env s)). guard x = None"
    using worker_start(1,2)[OF init] by blast+
  have ev: "events S = [Progress 5, Error msg_no_audio] @
           guarded env (case close_result env of None \<Rightarrow> msg_no_output
                        | Some m \<Rightarrow> msg_unexpected m)"
    using outcome_no_audio(1)[OF out mk' vc au] e0 by simp
  have cs: "\<forall>x\<in>set (calls S). guard x = None"
    using outcome_no_audio(2)[OF out mk' vc au] g0 by auto
  obtain xs where xs: "calls (snd (job env i out a w)) = calls S @ xs" "list_all housekeeping xs"
    using job_ran_world(3)[OF j] by blast
  have c: "\<forall>x\<in>set (calls (snd (job env i out a w))). guard x = None"
    using cs xs housekeeping_guard[OF xs(2)] by auto
  have "outside S = outside (started env s)"
    using outcome_final_call(3)[OF out e0 g0] cs by fastforce
  then have o: "outside (snd (job env i out a w)) = outside w"
    using job_ran_world(2)[OF j] worker_start(8)[OF init] by simp
  have "x = None"
    by (rule outcome_no_audio(3)[OF out mk' vc au])
  then show ?thesis
    using ev c o j job_ran_world(1)[OF j] by (simp add: denoising_error_def)
qed

theorem no_audio_track_outcome_witness:
  "fst (job env_no_audio ''/home/u/clip.mp4'' ''/home/u/out.mp4'' None world0) = None \<and>
   events (snd (job env_no_audio ''/home/u/clip.mp4'' ''/home/u/out.mp4'' None world0)) =
     [Progress 5, Error ''Input video has no audio track.''] \<and>
   filter (\<lambda>x. guard x \<noteq> None)
     (calls (snd (job env_no_audio ''/home/u/clip.mp4'' ''/home/u/out.mp4'' None world0))) = []"
proof -
  have init: "DenoiseWorker_init env_no_audio ''/home/u/clip.mp4'' ''/home/u/out.mp4'' None
     (world0\<lparr>events := [], calls := []\<rparr>) = Inr worker0"
    by (simp add: DenoiseWorker_init_def remux_def remux_cmd_def create_file_def os_path_join_def
      Let_def env_defs)
  have av: "DEEPFILTER_AVAILABLE env_no_audio"
    and vc: "VideoFileClip_result env_no_audio = Opened (VideoClip None)"
    and cl: "close_result env_no_audio = None" "error_signal env_no_audio \<noteq> []"
    by (simp_all add: env_defs)
  have mk: "mkdtemp (names worker0) (tmp worker0) = Some (''/tmp/b'', [''/tmp/c''])"
    by (simp add: worker0_def)
  from no_audio_track_outcome[OF init av mk vc] cl
  show ?thesis
    by (simp add: guarded_def msg_no_audio_def filter_empty_conv)
qed


text \<open>
  C7. The claim: when the model returns no data or raises during inference, the job fails
  with an error event, and the enhanced audio is never saved. The code at a raising
  inference: \<^verbatim>\<open>enhance\<close> has no handler of its own, so the exception goes to the
  outermost handler of \<^verbatim>\<open>run\<close>; its comment says that it avoids a second error when
  one was already sent, but its test \<^verbatim>\<open>if not self.error.signal\<close> reads an attribute
  that is a non-empty string for every PyQt signal, so the handler never emits. The job
  ends after progress 40 with no error event and no exception: nothing tells the
  interface that it failed.
\<close>

theorem raising_inference_emits_no_error:
  "error_signal env_enhance_raises = ''2error(QString)'' \<and>
   enhance_result env_enhance_raises None = EnhanceRaises ''out of memory'' \<and>
   Enhance None
     \<in> set (calls (snd (job env_enhance_raises ''/home/u/clip.mp4'' ''/home/u/out.mp4'' None world0))) \<and>
   fst (job env_enhance_raises ''/home/u/clip.mp4'' ''/home/u/out.mp4'' None world0) = None \<and>
   events (snd (job env_enhance_raises ''/home/u/clip.mp4'' ''/home/u/out.mp4'' None world0)) =
     [Progress 5, Progress 20, Progress 40] \<and>
   terminal_events
     (events (snd (job env_enhance_raises ''/home/u/clip.mp4'' ''/home/u/out.mp4'' None world0))) = []"
  by (simp add: job_defs env_defs terminal_events_def)

text \<open>
  C8. The claim: the persist stage fails with a persist error whenever the write raises or
  the enhanced buffer is empty or absent, and then the remux stage does not run. As stated
  it fails for an empty buffer: the code refuses only \<open>None\<close>; a buffer with no samples is
  passed to \<^verbatim>\<open>save_audio\<close> like any other, and when that call returns the job goes
  on to the final FFmpeg call and finishes.
\<close>

theorem empty_buffer_is_saved_and_remuxed:
  "enhance_result env_empty_buffer None = EnhanceReturns (Some (Tensor [])) \<and>
   events (snd (job env_empty_buffer ''/home/u/clip.mp4'' ''/home/u/out.mp4'' None world0)) =
     [Progress 5, Progress 20, Progress 40, Progress 70, Progress 80, Progress 100,
      Finished ''/home/u/out.mp4'' (msg_success ''/home/u/out.mp4'')] \<and>
   SaveAudio ''/tmp/b/temp_enhanced_audio.wav''
     \<in> set (calls (snd (job env_empty_buffer ''/home/u/clip.mp4'' ''/home/u/out.mp4'' None world0))) \<and>
   outside (snd (job env_empty_buffer ''/home/u/clip.mp4'' ''/home/u/out.mp4'' None world0)) =
     [''/app/models/DeepFilterNet3/enhance.log'', ''/home/u/out.mp4'']"
  by (simp add: job_defs env_defs)

text \<open>
  C8 as amended, for a job in which inference was called and \<^verbatim>\<open>stop()\<close> was not called
  before the third poll. When the enhanced audio is absent (\<open>None\<close>), the job ends with
  the error \<^verbatim>\<open>Denoising produced no audio data.\<close>, and neither \<^verbatim>\<open>save_audio\<close> nor the
  final FFmpeg call is made. When \<^verbatim>\<open>save_audio\<close> raises, the job ends with the error
  \<^verbatim>\<open>Failed to save denoised audio:\<close> followed by the exception's text, and the final
  FFmpeg call is not made.
\<close>

theorem persist_failure:
  assumes "Enhance x \<in> set (calls (snd (job env i out a w)))" and "\<not> stop_before env 3"
  shows
    "(enhance_result env x = EnhanceReturns None \<longrightarrow>
        events (snd (job env i out a w)) =
          [Progress 5, Progress 20, Progress 40, Progress 70, Error msg_no_data] \<and>
        (\<forall>p. SaveAudio p \<notin> set (calls (snd (job env i out a w)))) \<and>
        (\<forall>c. Subprocess_run c \<notin> set (calls (snd (job env i out a w))))) \<and>
     (\<forall>b m. enhance_result env x = EnhanceReturns (Some b) \<and> save_audio_result env b = Some m \<longrightarrow>
        events (snd (job env i out a w)) =
          [Progress 5, Progress 20, Progress 40, Progress 70, Error (msg_save_failed m)] \<and>
        (\<forall>c. Subprocess_run c \<notin> set (calls (snd (job env i out a w)))))"
proof -
  note inf = job_inference[OF assms(1)]
  have none: "enhance_result env x = EnhanceReturns None \<longrightarrow>
        events (snd (job env i out a w)) =
          [Progress 5, Progress 20, Progress 40, Progress 70, Error msg_no_data] \<and>
        (\<forall>p. SaveAudio p \<notin> set (calls (snd (job env i out a w)))) \<and>
        (\<forall>c. Subprocess_run c \<notin> set (calls (snd (job env i out a w))))"
    using inf(3) assms(2) unfolding inf(1) by blast
  have fails: "events (snd (job env i out a w)) =
          [Progress 5, Progress 20, Progress 40, Progress 70, Error (msg_save_failed m)] \<and>
        (\<forall>c. Subprocess_run c \<notin> set (calls (snd (job env i out a w))))"
    if "enhance_result env x = EnhanceReturns (Some b) \<and> save_audio_result env b = Some m" for b m
    using inf(4)[of b m] that assms(2) unfolding inf(1) by blast
  show ?thesis
    using none fails by blast
qed

theorem persist_failure_witness:
  "events (snd (job env_save_raises ''/home/u/clip.mp4'' ''/home/u/out.mp4'' None world0)) =
     [Progress 5, Progress 20, Progress 40, Progress 70,
      Error (msg_save_failed ''No space left on device'')] \<and>
   Subprocess_run []
     \<notin> set (calls (snd (job env_save_raises ''/home/u/clip.mp4'' ''/home/u/out.mp4'' None world0))) \<and>
   events (snd (job env_no_data ''/home/u/clip.mp4'' ''/home/u/out.mp4'' None world0)) =
     [Progress 5, Progress 20, Progress 40, Progress 70, Error msg_no_data]"
proof -
  have c1: "Enhance None \<in> set (calls (snd (job env_save_raises ''/home/u/clip.mp4'' ''/home/u/out.mp4'' None world0)))"
    by (simp add: job_defs env_defs)
  have c2: "Enhance None \<in> set (calls (snd (job env_no_data ''/home/u/clip.mp4'' ''/home/u/out.mp4'' None world0)))"
    by (simp add: job_defs env_defs)
  have e1: "enhance_result env_save_raises None = EnhanceReturns (Some (Tensor [1, 2, 3])) \<and>
      save_audio_result env_save_raises (Tensor [1, 2, 3]) = Some ''No space left on device''"
     "\<not> stop_before env_save_raises 3"
    by (simp_all add: env_defs)
  have e2: "enhance_result env_no_data None = EnhanceReturns None" "\<not> stop_before env_no_data 3"
    by (simp_all add: env_defs)
  from persist_failure[OF c1 e1(2)] persist_failure[OF c2 e2(2)] e1(1) e2(1)
  show ?thesis
    by blast
qed


text \<open>
  C9. In every job the final FFmpeg call is made at most once. When it is made, its
  arguments take the video of input 0, which is the file the sanitizer wrote, and copy it
  (\<^verbatim>\<open>-map 0:v:0\<close>, \<^verbatim>\<open>-c:v copy\<close>), take the audio of input 1, which is the file
  that \<^verbatim>\<open>save_audio\<close> was given for the enhanced audio, and encode it to AAC at the
  fixed bitrate \<^verbatim>\<open>320k\<close>, stop at the shorter input (\<^verbatim>\<open>-shortest\<close>) and name the
  job's output path as the output; and the five earlier progress values have all been
  emitted by then, with no error before them. Outside the temp directories the job writes
  at most the log file of \<^verbatim>\<open>init_df\<close> and, after it, the output path; the output path
  is written only by the final FFmpeg call.
\<close>

theorem final_ffmpeg_call:
  "length (filter is_final_ffmpeg (calls (snd (job env i out a w)))) \<le> 1 \<and>
   (\<forall>cmd. Subprocess_run cmd \<in> set (calls (snd (job env i out a w))) \<longrightarrow>
      (\<exists>exe video audio c0.
         cmd = [exe, ''-y'', ''-ignore_editlist'', ''1'', ''-i'', video, ''-i'', audio,
                ''-map'', ''0:v:0'', ''-map'', ''1:a:0'', ''-c:v'', ''copy'',
                ''-c:a'', ''aac'', ''-b:a'', ''320k'', ''-shortest'', out] \<and>
         Subprocess_remux c0 \<in> set (calls (snd (job env i out a w))) \<and> last c0 = video \<and>
         SaveAudio audio \<in> set (calls (snd (job env i out a w)))) \<and>
      take 5 (events (snd (job env i out a w))) = map Progress [5, 20, 40, 70, 80]) \<and>
   (outside (snd (job env i out a w)) = outside w \<or>
      InitDf (os_path_join (base_path env) ''models/DeepFilterNet3'')
        \<in> set (calls (snd (job env i out a w))) \<and>
      (outside (snd (job env i out a w)) = outside w @ log_written env \<or>
       outside (snd (job env i out a w)) = outside w @ log_written env @ [out] \<and>
       (\<exists>cmd. Subprocess_run cmd \<in> set (calls (snd (job env i out a w))))))"
proof (cases rule: job_cases[of env i out a w])
  case (crash e w')
  have g: "\<forall>x\<in>set (calls w'). guard x = None"
    using job_crash(4)[OF crash(1)] by auto
  then have "\<forall>cmd. Subprocess_run cmd \<notin> set (calls w')"
    by fastforce
  then show ?thesis
    using crash(2) job_crash(2)[OF crash(1)] no_final_ffmpeg[OF g] by simp
next
  case (unavailable s)
  let ?w = "world.truncate (if stop_before env 0 then stop s else s)"
  have g: "\<forall>x\<in>set (calls ?w). guard x = None"
    using sanitizer_calls_unguarded[OF job_unavailable(4)[OF unavailable(1)]] by blast
  then have "\<forall>cmd. Subprocess_run cmd \<notin> set (calls ?w)"
    by fastforce
  then show ?thesis
    using unavailable(3) job_unavailable(2)[OF unavailable(1)] no_final_ffmpeg[OF g] by simp
next
  case (ran s S x)
  let ?J = "snd (job env i out a w)"
  obtain ys where ys: "calls ?J = calls S @ ys" "list_all housekeeping ys"
    using job_ran_world(3)[OF ran(4)] by blast
  have e0: "events (started env s) = []" and g0: "\<forall>x\<in>set (calls (started env s)). guard x = None"
    using worker_start(1,2)[OF ran(1)] by blast+
  obtain exe0 where c0: "calls (started env s) = [Mkdtemp, Subprocess_remux (remux_cmd exe0 i (input_video s))]"
    using worker_start(4)[OF ran(1)] by blast
  note fin = outcome_final_call[OF ran(3) e0 g0]
  have mem: "Subprocess_run cmd \<in> set (calls ?J) \<longleftrightarrow> Subprocess_run cmd \<in> set (calls S)" for cmd
    using ys housekeeping_guard[OF ys(2), of "Subprocess_run cmd"] by auto
  have initdf: "InitDf (os_path_join (base_path env) ''models/DeepFilterNet3'') \<in> set (calls ?J)"
    if "InitDf (os_path_join (base_path env) ''models/DeepFilterNet3'') \<in> set (calls S)"
    using that ys by simp
  have one: "length (filter is_final_ffmpeg (calls ?J)) \<le> 1"
    using fin(1) ys by (simp add: housekeeping_not_final)
  have sub: "\<exists>c0. Subprocess_remux c0 \<in> set (calls ?J) \<and> last c0 = input_video s"
  proof -
    have "calls (started env s) = take 2 (calls S)"
      using ran(3) c0 by (cases rule: outcome.cases) simp_all
    then have "Subprocess_remux (remux_cmd exe0 i (input_video s)) \<in> set (calls S)"
      using c0 by (metis in_set_takeD insertCI list.simps(15))
    then show ?thesis
      using ys by (auto simp add: remux_cmd_def)
  qed
  have cmd: "(\<exists>exe video audio c0.
         cmd = [exe, ''-y'', ''-ignore_editlist'', ''1'', ''-i'', video, ''-i'', audio,
                ''-map'', ''0:v:0'', ''-map'', ''1:a:0'', ''-c:v'', ''copy'',
                ''-c:a'', ''aac'', ''-b:a'', ''320k'', ''-shortest'', out] \<and>
         Subprocess_remux c0 \<in> set (calls ?J) \<and> last c0 = video \<and>
         SaveAudio audio \<in> set (calls ?J)) \<and>
      take 5 (events ?J) = map Progress [5, 20, 40, 70, 80]"
    if "Subprocess_run cmd \<in> set (calls ?J)" for cmd
  proof -
    from that have "Subprocess_run cmd \<in> set (calls S)"
      using mem by simp
    from fin(2)[OF this] obtain exe d where
      c: "cmd = remux_back_cmd exe (input_video (started env s))
                  (os_path_join d enhanced_audio_name) (output_video (started env s))"
      and sv: "SaveAudio (os_path_join d enhanced_audio_name) \<in> set (calls S)"
      and t: "take 5 (events S) = map Progress [5, 20, 40, 70, 80]"
      by blast
    have sv': "SaveAudio (os_path_join d enhanced_audio_name) \<in> set (calls ?J)"
      using sv ys by simp
    have ceq: "cmd = [exe, ''-y'', ''-ignore_editlist'', ''1'', ''-i'', input_video s, ''-i'',
                os_path_join d enhanced_audio_name,
                ''-map'', ''0:v:0'', ''-map'', ''1:a:0'', ''-c:v'', ''copy'',
                ''-c:a'', ''aac'', ''-b:a'', ''320k'', ''-shortest'', out]"
      using c worker_start(6)[OF ran(1)] by (simp add: remux_back_cmd_def)
    obtain c0 where c0: "Subprocess_remux c0 \<in> set (calls ?J)" "last c0 = input_video s"
      using sub by blast
    have ex: "\<exists>exe video audio c0.
         cmd = [exe, ''-y'', ''-ignore_editlist'', ''1'', ''-i'', video, ''-i'', audio,
                ''-map'', ''0:v:0'', ''-map'', ''1:a:0'', ''-c:v'', ''copy'',
                ''-c:a'', ''aac'', ''-b:a'', ''320k'', ''-shortest'', out] \<and>
         Subprocess_remux c0 \<in> set (calls ?J) \<and> last c0 = video \<and>
         SaveAudio audio \<in> set (calls ?J)"
      using ceq c0 sv' by (intro exI conjI)
    have "take 5 (events ?J) = map Progress [5, 20, 40, 70, 80]"
      using t job_ran_world(1)[OF ran(4)] by simp
    with ex show ?thesis
      by (rule conjI)
  qed
  have outs: "outside ?J = outside w \<or>
      InitDf (os_path_join (base_path env) ''models/DeepFilterNet3'') \<in> set (calls ?J) \<and>
      (outside ?J = outside w @ log_written env \<or>
       outside ?J = outside w @ log_written env @ [out] \<and>
       (\<exists>cmd. Subprocess_run cmd \<in> set (calls ?J)))"
  proof -
    have o: "outside ?J = outside S"
      by (rule job_ran_world(2)[OF ran(4)])
    note f3 = fin(3)[unfolded worker_start(6,8)[OF ran(1)]]
    show ?thesis
      unfolding o using f3 mem initdf by blast
  qed
  show ?thesis
    using one cmd outs by blast
qed

theorem final_ffmpeg_call_witness:
  "Subprocess_run
     [''/opt/ffmpeg'', ''-y'', ''-ignore_editlist'', ''1'', ''-i'', ''/tmp/a/remux_clip.mp4'',
      ''-i'', ''/tmp/b/temp_enhanced_audio.wav'', ''-map'', ''0:v:0'', ''-map'', ''1:a:0'',
      ''-c:v'', ''copy'', ''-c:a'', ''aac'', ''-b:a'', ''320k'', ''-shortest'', ''/home/u/out.mp4'']
     \<in> set (calls (snd (job env_ok ''/home/u/clip.mp4'' ''/home/u/out.mp4'' None world0))) \<and>
   SaveAudio ''/tmp/b/temp_enhanced_audio.wav''
     \<in> set (calls (snd (job env_ok ''/home/u/clip.mp4'' ''/home/u/out.mp4'' None world0))) \<and>
   take 5 (events (snd (job env_ok ''/home/u/clip.mp4'' ''/home/u/out.mp4'' None world0))) =
     map Progress [5, 20, 40, 70, 80] \<and>
   length (filter is_final_ffmpeg
     (calls (snd (job env_ok ''/home/u/clip.mp4'' ''/home/u/out.mp4'' None world0)))) \<le> 1"
proof -
  have "Subprocess_run
     [''/opt/ffmpeg'', ''-y'', ''-ignore_editlist'', ''1'', ''-i'', ''/tmp/a/remux_clip.mp4'',
      ''-i'', ''/tmp/b/temp_enhanced_audio.wav'', ''-map'', ''0:v:0'', ''-map'', ''1:a:0'',
      ''-c:v'', ''copy'', ''-c:a'', ''aac'', ''-b:a'', ''320k'', ''-shortest'', ''/home/u/out.mp4'']
     \<in> set (calls (snd (job env_ok ''/home/u/clip.mp4'' ''/home/u/out.mp4'' None world0)))"
    by (simp add: job_defs env_defs)
  note c = this
  note f = final_ffmpeg_call[of env_ok "''/home/u/clip.mp4''" "''/home/u/out.mp4''" None world0]
  from f c obtain audio where
    eq: "[''/opt/ffmpeg'', ''-y'', ''-ignore_editlist'', ''1'', ''-i'', ''/tmp/a/remux_clip.mp4'',
          ''-i'', ''/tmp/b/temp_enhanced_audio.wav'', ''-map'', ''0:v:0'', ''-map'', ''1:a:0'',
          ''-c:v'', ''copy'', ''-c:a'', ''aac'', ''-b:a'', ''320k'', ''-shortest'',
          ''/home/u/out.mp4''] ! 7 = audio"
    and sa: "SaveAudio audio
      \<in> set (calls (snd (job env_ok ''/home/u/clip.mp4'' ''/home/u/out.mp4'' None world0)))"
    by fastforce
  from eq have "audio = ''/tmp/b/temp_enhanced_audio.wav''"
    by simp
  with sa have s: "SaveAudio ''/tmp/b/temp_enhanced_audio.wav''
      \<in> set (calls (snd (job env_ok ''/home/u/clip.mp4'' ''/home/u/out.mp4'' None world0)))"
    by simp
  from f c have "take 5 (events (snd (job env_ok ''/home/u/clip.mp4'' ''/home/u/out.mp4'' None world0))) =
     map Progress [5, 20, 40, 70, 80]"
    by blast
  moreover from f have "length (filter is_final_ffmpeg
     (calls (snd (job env_ok ''/home/u/clip.mp4'' ''/home/u/out.mp4'' None world0)))) \<le> 1"
    by (rule conjunct1)
  ultimately show ?thesis
    using c s by (intro conjI)
qed

text \<open>
  C10. On every way out of a job, a clip that was opened has had \<^verbatim>\<open>close()\<close> called on
  it before \<^verbatim>\<open>run\<close> returns: after the extraction, or else in the \<^verbatim>\<open>finally\<close> block
  (after an open failure there is no clip to close). The job ends holding no more media
  handles than it started with, unless the \<^verbatim>\<open>close()\<close> of the \<^verbatim>\<open>finally\<close> block itself
  raised.
\<close>

theorem clip_released:
  "(\<forall>p c. OpenClip p \<in> set (calls (snd (job env i out a w))) \<and>
           VideoFileClip_result env = Opened c \<longrightarrow>
           CloseClip \<in> set (calls (snd (job env i out a w)))) \<and>
   (handles (snd (job env i out a w)) = handles w \<or>
      close_finally_raises env \<and> handles (snd (job env i out a w)) = Suc (handles w) \<and>
      CloseClip \<in> set (calls (snd (job env i out a w))))"
proof (cases rule: job_cases[of env i out a w])
  case (crash e w')
  have "\<forall>p. OpenClip p \<notin> set (calls w')"
    using job_crash(4)[OF crash(1)] by fastforce
  then show ?thesis
    using crash(2) job_crash(3)[OF crash(1)] by simp
next
  case (unavailable s)
  let ?w = "world.truncate (if stop_before env 0 then stop s else s)"
  have "\<forall>p. OpenClip p \<notin> set (calls ?w)"
    using job_unavailable(4)[OF unavailable(1)] by blast
  then show ?thesis
    using unavailable(3) job_unavailable(3)[OF unavailable(1)] by simp
next
  case (ran s S x)
  let ?J = "snd (job env i out a w)"
  let ?F = "finally_close env S"
  obtain ys where ys: "calls (tidy env ?F) = calls ?F @ ys" "list_all housekeeping ys"
    using tidy_calls by blast
  have cj: "calls ?J = calls S @ (case video_clip S of None \<Rightarrow> [] | Some c \<Rightarrow> [CloseClip]) @ ys"
    using ys by (simp add: ran(4) finally_close_calls)
  have hj: "handles ?J =
     (case video_clip S of None \<Rightarrow> handles S
      | Some c \<Rightarrow> if close_finally_raises env then handles S else handles S - 1)"
    by (simp add: ran(4) finally_close_handles)
  have v0: "video_clip (started env s) = None" and h0: "handles (started env s) = handles w"
    and o0: "\<forall>q. OpenClip q \<notin> set (calls (started env s))"
    using worker_start(3,5,9)[OF ran(1)] by blast+
  note hs = outcome_handles[OF ran(3) v0]
  have closed: "CloseClip \<in> set (calls ?J)"
    if "OpenClip p \<in> set (calls ?J)" "VideoFileClip_result env = Opened c" for p c
  proof -
    have "OpenClip p \<notin> set ys"
      using ys(2) by (auto simp add: list_all_iff)
    with that(1) have "OpenClip p \<in> set (calls S)"
      by (auto simp add: cj split: option.splits)
    from hs(2)[OF this o0 that(2)] show ?thesis
      by (auto simp add: cj split: option.splits)
  qed
  have held: "handles ?J = handles w \<or>
      close_finally_raises env \<and> handles ?J = Suc (handles w) \<and> CloseClip \<in> set (calls ?J)"
    using hs(1) h0 by (auto simp add: hj cj split: option.splits)
  show ?thesis
    using closed held by blast
qed

theorem clip_released_witness:
  "CloseClip \<in> set (calls (snd (job env_ok ''/home/u/clip.mp4'' ''/home/u/out.mp4'' None world0))) \<and>
   handles (snd (job env_ok ''/home/u/clip.mp4'' ''/home/u/out.mp4'' None world0)) = handles world0"
proof -
  have "OpenClip ''/tmp/a/remux_clip.mp4''
      \<in> set (calls (snd (job env_ok ''/home/u/clip.mp4'' ''/home/u/out.mp4'' None world0))) \<and>
    VideoFileClip_result env_ok = Opened (VideoClip (Some (AudioClip True)))"
    and "\<not> close_finally_raises env_ok"
    by (simp_all add: job_defs env_defs)
  with clip_released[of env_ok "''/home/u/clip.mp4''" "''/home/u/out.mp4''" None world0]
  show ?thesis
    by blast
qed

end
